theory Spec2Isabelle
  imports
    Complex_Main
    "HOL-Library.Word"
    "HOL-Library.Char_ord"
    "HOL-Library.List_Lexorder"
    "HOL-Library.Multiset"
begin

unbundle bit_operations_syntax

section \<open>Python values\<close>

text \<open>
  A Python \<open>str\<close> is modelled by \<open>string\<close>: the sequence of its characters, each an
  8-bit \<open>char\<close>. On ASCII text this is the string itself and also its UTF-8 encoding
  (what \<open>str.encode()\<close> returns); \<open>len\<close> and comparison (the lexicographic order of
  \<open>HOL-Library.List_Lexorder\<close> over \<open>HOL-Library.Char_ord\<close>) agree with Python's there.

  A \<open>Decimal\<close> is a sign, a coefficient and an exponent, or an infinity, or a NaN.
  Binary floats are not represented.
\<close>

datatype decimal =
    Fin bool nat int
  | Inf bool
  | NaN

datatype pyval =
    VNone
  | VBool bool
  | VInt int
  | VStr string
  | VDec decimal
  | VList "pyval list"
  | VDict "(string \<times> pyval) list"

text \<open>A \<open>dict\<close> with string keys, in insertion order.\<close>

type_synonym pydict = "(string \<times> pyval) list"

text \<open>An exception that was raised, with its message.\<close>

datatype exn = Exn string

fun join :: "string \<Rightarrow> string list \<Rightarrow> string" where
  "join sep [] = []"
| "join sep [x] = x"
| "join sep (x # y # ys) = x @ sep @ join sep (y # ys)"

section \<open>SHA-256 (\<open>hashlib.sha256(...).hexdigest()\<close>)\<close>

type_synonym w32 = "32 word"

definition rotr :: "nat \<Rightarrow> w32 \<Rightarrow> w32" where
  "rotr n x = (drop_bit n x) OR (push_bit (32 - n) x)"

definition sha_k :: "w32 list" where
  "sha_k = [
   1116352408, 1899447441, 3049323471, 3921009573, 961987163, 1508970993, 2453635748, 2870763221,
   3624381080, 310598401, 607225278, 1426881987, 1925078388, 2162078206, 2614888103, 3248222580,
   3835390401, 4022224774, 264347078, 604807628, 770255983, 1249150122, 1555081692, 1996064986,
   2554220882, 2821834349, 2952996808, 3210313671, 3336571891, 3584528711, 113926993, 338241895,
   666307205, 773529912, 1294757372, 1396182291, 1695183700, 1986661051, 2177026350, 2456956037,
   2730485921, 2820302411, 3259730800, 3345764771, 3516065817, 3600352804, 4094571909, 275423344,
   430227734, 506948616, 659060556, 883997877, 958139571, 1322822218, 1537002063, 1747873779,
   1955562222, 2024104815, 2227730452, 2361852424, 2428436474, 2756734187, 3204031479, 3329325298]"

definition sha_h0 :: "w32 list" where
  "sha_h0 = [1779033703, 3144134277, 1013904242, 2773480762,
             1359893119, 2600822924, 528734635, 1541459225]"

definition sha_pad :: "string \<Rightarrow> nat list" where
  "sha_pad s =
     (let n = length s;
          z = (119 - n mod 64) mod 64;
          bits = 8 * n
      in map of_char s @ [128] @ replicate z 0
         @ map (\<lambda>i. (bits div 256 ^ (7 - i)) mod 256) [0..<8])"

fun be_words :: "nat list \<Rightarrow> w32 list" where
  "be_words (a # b # c # d # rest) =
     of_nat (((a * 256 + b) * 256 + c) * 256 + d) # be_words rest"
| "be_words _ = []"

fun sha_extend :: "nat \<Rightarrow> w32 list \<Rightarrow> w32 list" where
  "sha_extend 0 ws = ws"
| "sha_extend (Suc n) ws =
     (let i = length ws;
          x = ws ! (i - 15);
          y = ws ! (i - 2);
          s0 = rotr 7 x XOR rotr 18 x XOR drop_bit 3 x;
          s1 = rotr 17 y XOR rotr 19 y XOR drop_bit 10 y
      in sha_extend n (ws @ [ws ! (i - 16) + s0 + ws ! (i - 7) + s1]))"

fun sha_round :: "w32 list \<Rightarrow> w32 \<times> w32 \<Rightarrow> w32 list" where
  "sha_round [a, b, c, d, e, f, g, h] (k, w) =
     (let s1 = rotr 6 e XOR rotr 11 e XOR rotr 25 e;
          ch = (e AND f) XOR (NOT e AND g);
          t1 = h + s1 + ch + k + w;
          s0 = rotr 2 a XOR rotr 13 a XOR rotr 22 a;
          mj = (a AND b) XOR (a AND c) XOR (b AND c);
          t2 = s0 + mj
      in [t1 + t2, a, b, c, d + t1, e, f, g])"
| "sha_round st _ = st"

definition sha_block :: "w32 list \<Rightarrow> w32 list \<Rightarrow> w32 list" where
  "sha_block hs blk =
     map2 (+) hs (foldl sha_round hs (zip sha_k (sha_extend 48 blk)))"

function sha_blocks :: "w32 list \<Rightarrow> w32 list \<Rightarrow> w32 list" where
  "sha_blocks hs ws =
     (if length ws < 16 then hs
      else sha_blocks (sha_block hs (take 16 ws)) (drop 16 ws))"
  by pat_completeness auto
termination
  by (relation "measure (\<lambda>(hs, ws). length ws)") auto

definition hex_digit :: "nat \<Rightarrow> char" where
  "hex_digit n = ''0123456789abcdef'' ! (n mod 16)"

definition hex_word :: "w32 \<Rightarrow> string" where
  "hex_word w = map (\<lambda>i. hex_digit (unat (drop_bit (4 * (7 - i)) w))) [0..<8]"

definition sha256_hexdigest :: "string \<Rightarrow> string" where
  "sha256_hexdigest s = concat (map hex_word (sha_blocks sha_h0 (be_words (sha_pad s))))"

section \<open>Products (\<open>src/models/product.py\<close>)\<close>

record ProductDB =
  product_id :: string
  sku :: string
  name :: string
  description :: "string option"
  category :: string
  price :: decimal
  stock :: int
  unit :: string
  attributes :: pydict

fun is_str :: "pyval \<Rightarrow> bool" where
  "is_str (VStr s) = True"
| "is_str _ = False"

fun str_of :: "pyval \<Rightarrow> string" where
  "str_of (VStr s) = s"
| "str_of _ = []"

text \<open>
  \<open>"|".join(f"{k}:{v}" for k, v in sorted(self.attributes.items()) if isinstance(v, str))\<close>:
  the keys of a dict are distinct, so sorting the items sorts them by key.
\<close>

definition attr_text :: "pydict \<Rightarrow> string" where
  "attr_text attrs =
     join ''|'' (map (\<lambda>(k, v). k @ '':'' @ str_of v)
                     (filter (\<lambda>(k, v). is_str v) (sort_key fst attrs)))"

text \<open>The text that \<open>compute_text_hash\<close> digests.\<close>

text \<open>\<open>self.description or ''\<close>: \<open>None\<close> and the empty string both give the empty string.\<close>

definition or_empty :: "string option \<Rightarrow> string" where
  "or_empty d = (case d of None \<Rightarrow> [] | Some s \<Rightarrow> s)"

definition text_content :: "ProductDB \<Rightarrow> string" where
  "text_content p =
     (let t = name p @ ''|'' @ or_empty (description p) @ ''|'' @ category p
      in if attributes p \<noteq> [] then t @ ''|'' @ attr_text (attributes p) else t)"

definition compute_text_hash :: "ProductDB \<Rightarrow> string" where
  "compute_text_hash p = sha256_hexdigest (text_content p)"



section \<open>Change detection (\<open>src/embeddings/generator.py\<close>, \<open>src/pipelines/postgres_to_qdrant.py\<close>)\<close>

definition should_regenerate :: "ProductDB \<Rightarrow> string option \<Rightarrow> bool" where
  "should_regenerate product existing_hash =
     (case existing_hash of
        None \<Rightarrow> True
      | Some h \<Rightarrow> compute_text_hash product \<noteq> h)"

text \<open>
  The classification loop of \<open>PostgresToQdrantPipeline.run\<close>; the accumulator holds
  \<open>products_to_embed\<close> and \<open>products_metadata_only\<close>.
\<close>

fun classify_loop ::
  "bool \<Rightarrow> (string \<rightharpoonup> string) \<Rightarrow> ProductDB list \<Rightarrow>
   ProductDB list \<times> ProductDB list \<Rightarrow> ProductDB list \<times> ProductDB list" where
  "classify_loop force_regenerate existing_hashes [] acc = acc"
| "classify_loop force_regenerate existing_hashes (product # rest) (to_embed, metadata_only) =
     (let current_hash = compute_text_hash product;
          existing_hash = existing_hashes (sku product)
      in if force_regenerate \<or> existing_hash = None then
           classify_loop force_regenerate existing_hashes rest
             (to_embed @ [product], metadata_only)
         else if existing_hash \<noteq> Some current_hash then
           classify_loop force_regenerate existing_hashes rest
             (to_embed @ [product], metadata_only)
         else
           classify_loop force_regenerate existing_hashes rest
             (to_embed, metadata_only @ [product]))"

definition classify ::
  "ProductDB list \<Rightarrow> (string \<rightharpoonup> string) \<Rightarrow> bool \<Rightarrow> ProductDB list \<times> ProductDB list" where
  "classify products existing_hashes force_regenerate =
     classify_loop force_regenerate existing_hashes products ([], [])"

text \<open>The rule of the specification, in its words.\<close>

definition needs_embedding_spec :: "bool \<Rightarrow> (string \<rightharpoonup> string) \<Rightarrow> ProductDB \<Rightarrow> bool" where
  "needs_embedding_spec force_regenerate existing_hashes p =
     (if force_regenerate \<or> existing_hashes (sku p) = None then True
      else if existing_hashes (sku p) \<noteq> Some (compute_text_hash p) then True
      else False)"

section \<open>Batch cleaning (\<open>src/transformers/cleaners.py\<close>)\<close>

text \<open>
  \<open>clean_batch\<close> calls \<open>self.clean_product\<close> inside \<open>try\<close>; the cleaner of one record
  is a parameter here, returning the cleaned record or the exception it raised.
\<close>

fun clean_loop :: "(pydict \<Rightarrow> exn + pydict) \<Rightarrow> pydict list \<Rightarrow> pydict list \<Rightarrow> pydict list" where
  "clean_loop clean_product [] cleaned = cleaned"
| "clean_loop clean_product (product # rest) cleaned =
     (case clean_product product of
        Inr c \<Rightarrow> clean_loop clean_product rest (cleaned @ [c])
      | Inl e \<Rightarrow> clean_loop clean_product rest (cleaned @ [product]))"

definition clean_batch :: "(pydict \<Rightarrow> exn + pydict) \<Rightarrow> pydict list \<Rightarrow> pydict list" where
  "clean_batch clean_product products = clean_loop clean_product products []"

section \<open>Dictionaries and truth values\<close>

text \<open>\<open>d[k] = v\<close>: an existing key keeps its position, a new key goes to the end.\<close>

fun dict_set :: "('k \<times> 'v) list \<Rightarrow> 'k \<Rightarrow> 'v \<Rightarrow> ('k \<times> 'v) list" where
  "dict_set [] k v = [(k, v)]"
| "dict_set ((k', v') # d) k v =
     (if k' = k then (k, v) # d else (k', v') # dict_set d k v)"

text \<open>\<open>d.get(k)\<close>: \<open>None\<close> for a missing key.\<close>

definition dict_get :: "('k \<times> pyval) list \<Rightarrow> 'k \<Rightarrow> pyval" where
  "dict_get d k = (case map_of d k of None \<Rightarrow> VNone | Some v \<Rightarrow> v)"

text \<open>\<open>{**d, **e}\<close> and \<open>dict.update\<close>: the keys of \<open>e\<close> are set in \<open>d\<close> one by one.\<close>

definition dict_update :: "('k \<times> 'v) list \<Rightarrow> ('k \<times> 'v) list \<Rightarrow> ('k \<times> 'v) list" where
  "dict_update d e = foldl (\<lambda>acc (k, v). dict_set acc k v) d e"

text \<open>The truth value of a Python object (\<open>if x:\<close>, \<open>not x\<close>).\<close>

fun truthy :: "pyval \<Rightarrow> bool" where
  "truthy VNone = False"
| "truthy (VBool b) = b"
| "truthy (VInt i) = (i \<noteq> 0)"
| "truthy (VStr s) = (s \<noteq> [])"
| "truthy (VDec (Fin sg c e)) = (c \<noteq> 0)"
| "truthy (VDec d) = True"
| "truthy (VList xs) = (xs \<noteq> [])"
| "truthy (VDict d) = (d \<noteq> [])"

section \<open>The vector index (\<open>src/loaders/qdrant_loader.py\<close>)\<close>

text \<open>
  A point of the Qdrant collection: its id, its vector and its payload. The collection is
  the state that the loader's calls change; a call of the client is taken to succeed.
\<close>

record point =
  point_id :: pyval
  vector :: "real list"
  payload :: pydict

type_synonym collection = "point list"

text \<open>
  Modelled from the Qdrant client interface (\<open>AsyncQdrantClient.set_payload\<close>): the given
  keys are set in the payload of every selected point; its other keys, its id and its vector
  stay as they are.
\<close>

definition set_payload :: "pydict \<Rightarrow> pyval list \<Rightarrow> collection \<Rightarrow> collection" where
  "set_payload new_payload points col =
     map (\<lambda>pt. if point_id pt \<in> set points
                then pt\<lparr>payload := dict_update (payload pt) new_payload\<rparr> else pt) col"

text \<open>
  Modelled from the Qdrant client interface (\<open>AsyncQdrantClient.delete\<close> with a filter that
  matches the payload key \<open>sku\<close>): every point whose payload has that sku is removed.
\<close>

definition delete_by_sku :: "pyval \<Rightarrow> collection \<Rightarrow> collection" where
  "delete_by_sku s col = filter (\<lambda>pt. map_of (payload pt) ''sku'' \<noteq> Some s) col"

text \<open>The dictionary \<open>payload_update\<close> that \<open>update_metadata\<close> builds.\<close>

definition metadata_payload :: "pyval option \<Rightarrow> pyval option \<Rightarrow> pydict" where
  "metadata_payload price_arg stock_arg =
     (case price_arg of None \<Rightarrow> [] | Some v \<Rightarrow> [(''price'', v)])
     @ (case stock_arg of None \<Rightarrow> [] | Some v \<Rightarrow> [(''stock'', v)])"

definition update_metadata ::
  "pyval \<Rightarrow> pyval option \<Rightarrow> pyval option \<Rightarrow> collection \<Rightarrow> collection" where
  "update_metadata pid price_arg stock_arg col =
     (if price_arg = None \<and> stock_arg = None then col
      else set_payload (metadata_payload price_arg stock_arg) [pid] col)"

text \<open>The dictionary \<open>payload\<close> that \<open>update_metadata_batch\<close> builds for one update.\<close>

definition batch_payload :: "pydict \<Rightarrow> pydict" where
  "batch_payload update =
     (case map_of update ''price'' of None \<Rightarrow> [] | Some v \<Rightarrow> [(''price'', v)])
     @ (case map_of update ''stock'' of None \<Rightarrow> [] | Some v \<Rightarrow> [(''stock'', v)])"

fun update_metadata_batch_loop :: "pydict list \<Rightarrow> nat \<times> collection \<Rightarrow> nat \<times> collection" where
  "update_metadata_batch_loop [] st = st"
| "update_metadata_batch_loop (update # rest) (updated, col) =
     (let pid = dict_get update ''point_id'' in
      if \<not> truthy pid then update_metadata_batch_loop rest (updated, col)
      else if batch_payload update \<noteq> [] then
        update_metadata_batch_loop rest
          (updated + 1, set_payload (batch_payload update) [pid] col)
      else update_metadata_batch_loop rest (updated, col))"

definition update_metadata_batch :: "pydict list \<Rightarrow> collection \<Rightarrow> nat \<times> collection" where
  "update_metadata_batch updates col = update_metadata_batch_loop updates (0, col)"

text \<open>
  \<open>get_existing_hashes\<close>: the scroll visits every point of the collection, page by page;
  a point enters the dictionary when its payload has a true \<open>sku\<close> and a true \<open>text_hash\<close>.
\<close>

fun get_existing_hashes_loop :: "collection \<Rightarrow> (pyval \<times> pyval) list \<Rightarrow> (pyval \<times> pyval) list" where
  "get_existing_hashes_loop [] hashes = hashes"
| "get_existing_hashes_loop (pt # rest) hashes =
     (if payload pt \<noteq> [] then
        (let s = dict_get (payload pt) ''sku'';
             text_hash = dict_get (payload pt) ''text_hash''
         in if truthy s \<and> truthy text_hash
            then get_existing_hashes_loop rest (dict_set hashes s text_hash)
            else get_existing_hashes_loop rest hashes)
      else get_existing_hashes_loop rest hashes)"

definition get_existing_hashes :: "collection \<Rightarrow> (pyval \<times> pyval) list" where
  "get_existing_hashes col = get_existing_hashes_loop col []"

section \<open>Deletion reconciliation (\<open>PostgresToQdrantPipeline.sync_deletions\<close>)\<close>

text \<open>\<open>to_delete = qdrant_skus - pg_skus\<close>, listed in the order of the index's keys.\<close>

definition to_delete :: "ProductDB list \<Rightarrow> collection \<Rightarrow> pyval list" where
  "to_delete pg_products col =
     (let pg_skus = set (map (\<lambda>p. VStr (sku p)) pg_products);
          qdrant_skus = map fst (get_existing_hashes col)
      in filter (\<lambda>s. s \<notin> pg_skus) qdrant_skus)"

fun delete_loop :: "pyval list \<Rightarrow> nat \<times> collection \<Rightarrow> nat \<times> collection" where
  "delete_loop [] st = st"
| "delete_loop (s # rest) (deleted, col) = delete_loop rest (deleted + 1, delete_by_sku s col)"

definition sync_deletions :: "ProductDB list \<Rightarrow> collection \<Rightarrow> nat \<times> collection" where
  "sync_deletions pg_products col = delete_loop (to_delete pg_products col) (0, col)"

section \<open>Batch embedding (\<open>src/embeddings/generator.py\<close>)\<close>

text \<open>
  \<open>str.strip()\<close>: the characters that \<open>str.isspace\<close> accepts, among the 8-bit ones, are
  removed at both ends.
\<close>

definition is_space :: "char \<Rightarrow> bool" where
  "is_space c = ((of_char c :: nat) \<in> {9, 10, 11, 12, 13, 28, 29, 30, 31, 32, 133, 160})"

definition strip :: "string \<Rightarrow> string" where
  "strip s = rev (dropWhile is_space (rev (dropWhile is_space s)))"

record ProductEmbedding =
  emb_id :: string
  emb_vector :: "real list"
  emb_sku :: string
  emb_product_id :: string
  emb_category :: string
  emb_price :: decimal
  emb_stock :: int
  emb_text :: string
  emb_text_hash :: string

text \<open>
  The loop over \<open>product.attributes.items()\<close> in \<open>build_embedding_text\<close>. \<open>str(v)\<close> for the
  elements of a list-valued attribute is the parameter \<open>py_str\<close>.
\<close>

fun text_attrs :: "(pyval \<Rightarrow> string) \<Rightarrow> pydict \<Rightarrow> string list" where
  "text_attrs py_str [] = []"
| "text_attrs py_str ((key, VStr v) # rest) =
     (if strip v \<noteq> [] then (key @ '': '' @ v) # text_attrs py_str rest
      else text_attrs py_str rest)"
| "text_attrs py_str ((key, VList vs) # rest) =
     (let str_values = map py_str (filter truthy vs)
      in if str_values \<noteq> [] then (key @ '': '' @ join '', '' str_values) # text_attrs py_str rest
         else text_attrs py_str rest)"
| "text_attrs py_str ((key, v) # rest) = text_attrs py_str rest"

text \<open>
  The accented letters of the labels are the 8-bit characters of their code points
  (\<open>0xED\<close>, \<open>0xF3\<close>).
\<close>

definition build_embedding_text :: "(pyval \<Rightarrow> string) \<Rightarrow> ProductDB \<Rightarrow> string" where
  "build_embedding_text py_str product =
     (let parts = [''Producto: '' @ name product,
                   ''Categor'' @ [CHR 0xED] @ ''a: '' @ category product];
          parts = (if or_empty (description product) \<noteq> []
                   then parts @ [''Descripci'' @ [CHR 0xF3] @ ''n: ''
                                  @ or_empty (description product)]
                   else parts);
          parts = (if unit product \<noteq> [] \<and> unit product \<noteq> ''unidad''
                   then parts @ [''Unidad: '' @ unit product] else parts);
          parts = (if attributes product \<noteq> [] \<and> text_attrs py_str (attributes product) \<noteq> []
                   then parts @ [''Caracter'' @ [CHR 0xED] @ ''sticas: ''
                                  @ join ''; '' (text_attrs py_str (attributes product))]
                   else parts)
      in join ''. '' parts)"

text \<open>\<open>Decimal.is_finite()\<close>.\<close>

fun is_finite :: "decimal \<Rightarrow> bool" where
  "is_finite (Fin sg c e) = True"
| "is_finite d = False"

text \<open>
  The construction \<open>ProductEmbedding(...)\<close>. The class is a pydantic model: it validates
  its arguments and raises \<open>ValidationError\<close> when one is refused. The field
  \<open>price: Decimal\<close> refuses a NaN and an infinity. What the field \<open>vector: list[float]\<close>
  makes of the value that the provider returned for a product is the parameter
  \<open>as_floats\<close>: the list of floats, or \<open>None\<close> when the value is refused. The other
  arguments are strings and an \<open>int\<close>, which their fields accept.
\<close>

definition make_embedding ::
  "('v \<Rightarrow> real list option) \<Rightarrow> ProductDB \<Rightarrow> 'v \<Rightarrow> string \<Rightarrow> exn + ProductEmbedding" where
  "make_embedding as_floats product v text =
     (case as_floats v of
        None \<Rightarrow> Inl (Exn ''ValidationError'')
      | Some vec \<Rightarrow>
          if is_finite (price product) then
            Inr \<lparr>emb_id = ''product-'' @ product_id product, emb_vector = vec,
                 emb_sku = sku product, emb_product_id = product_id product,
                 emb_category = category product, emb_price = price product,
                 emb_stock = stock product, emb_text = text,
                 emb_text_hash = compute_text_hash product\<rparr>
          else Inl (Exn ''ValidationError''))"

text \<open>
  The embedding provider: the \<open>n\<close>-th call of \<open>_call_voyage_api\<close> with the given texts
  returns the list of the values \<open>item["embedding"]\<close> of the response, or raises.
\<close>

type_synonym 'v voyage_api = "nat \<Rightarrow> string list \<Rightarrow> exn + 'v list"

text \<open>
  The loop \<open>for product, vector, text in zip(batch, embeddings, texts)\<close>, which is inside
  the \<open>try\<close>: an exception raised by a construction ends the loop, and the records that
  were appended to \<open>results\<close> before it stay there.
\<close>

fun append_records ::
  "('v \<Rightarrow> real list option) \<Rightarrow> (ProductDB \<times> 'v \<times> string) list \<Rightarrow> ProductEmbedding list \<Rightarrow>
   ProductEmbedding list" where
  "append_records as_floats [] results = results"
| "append_records as_floats ((product, v, text) # rest) results =
     (case make_embedding as_floats product v text of
        Inl e \<Rightarrow> results
      | Inr r \<Rightarrow> append_records as_floats rest (results @ [r]))"

text \<open>
  The body of the loop over the chunks: the texts, then the \<open>try\<close> with the call of the
  provider and the loop over the triples; the \<open>except\<close> branch logs the exception and goes
  on with the next chunk.
\<close>

definition embed_chunk ::
  "(pyval \<Rightarrow> string) \<Rightarrow> 'v voyage_api \<Rightarrow> ('v \<Rightarrow> real list option) \<Rightarrow> nat \<Rightarrow> ProductDB list \<Rightarrow>
   ProductEmbedding list \<Rightarrow> ProductEmbedding list" where
  "embed_chunk py_str api as_floats n batch results =
     (let texts = map (build_embedding_text py_str) batch
      in case api n texts of
           Inl e \<Rightarrow> results
         | Inr embeddings \<Rightarrow> append_records as_floats (zip batch (zip embeddings texts)) results)"

text \<open>
  The loop \<open>for i in range(0, len(products), self.batch_size)\<close>, for a positive batch size:
  \<open>products\<close> is what is left from index \<open>i\<close> on, \<open>n\<close> counts the calls of the provider.
\<close>

function embed_loop ::
  "(pyval \<Rightarrow> string) \<Rightarrow> 'v voyage_api \<Rightarrow> ('v \<Rightarrow> real list option) \<Rightarrow> nat \<Rightarrow> nat \<Rightarrow>
   ProductDB list \<Rightarrow> ProductEmbedding list \<Rightarrow> ProductEmbedding list" where
  "embed_loop py_str api as_floats batch_size n products results =
     (if products = [] \<or> batch_size = 0 then results
      else embed_loop py_str api as_floats batch_size (n + 1) (drop batch_size products)
             (embed_chunk py_str api as_floats n (take batch_size products) results))"
  by pat_completeness auto
termination
  by (relation "measure (\<lambda>(py_str, api, as_floats, batch_size, n, products, results).
        length products)") auto

text \<open>
  \<open>range\<close> raises \<open>ValueError\<close> for a step of zero, outside the \<open>try\<close>; a negative step
  gives an empty range.
\<close>

definition generate_embeddings_batch ::
  "(pyval \<Rightarrow> string) \<Rightarrow> 'v voyage_api \<Rightarrow> ('v \<Rightarrow> real list option) \<Rightarrow> int \<Rightarrow> ProductDB list \<Rightarrow>
   exn + ProductEmbedding list" where
  "generate_embeddings_batch py_str api as_floats batch_size products =
     (if batch_size = 0 then Inl (Exn ''range() arg 3 must not be zero'')
      else if batch_size < 0 then Inr []
      else Inr (embed_loop py_str api as_floats (nat batch_size) 0 products []))"

text \<open>
  What one chunk adds to the result, in the words of the amended claim: nothing when the
  call of the provider raised; else the records of the products that have a vector, in
  order, up to the first record that is refused.
\<close>

definition chunk_records_spec ::
  "(pyval \<Rightarrow> string) \<Rightarrow> 'v voyage_api \<Rightarrow> ('v \<Rightarrow> real list option) \<Rightarrow> nat \<Rightarrow> ProductDB list \<Rightarrow>
   ProductEmbedding list" where
  "chunk_records_spec py_str api as_floats n batch =
     (case api n (map (build_embedding_text py_str) batch) of
        Inl e \<Rightarrow> []
      | Inr vs \<Rightarrow>
          map projr
            (takeWhile (\<lambda>x. \<not> isl x)
               (map (\<lambda>(product, v).
                       make_embedding as_floats product v (build_embedding_text py_str product))
                    (zip batch vs))))"

text \<open>The chunks of a sequence, in the words of the specification.\<close>

function chunks :: "nat \<Rightarrow> 'a list \<Rightarrow> 'a list list" where
  "chunks n xs = (if xs = [] \<or> n = 0 then [] else take n xs # chunks n (drop n xs))"
  by pat_completeness auto
termination
  by (relation "measure (\<lambda>(n, xs). length xs)") auto

section \<open>Duplicate handling (\<open>src/transformers/normalizers.py\<close>)\<close>

text \<open>
  \<open>Decimal\<close> addition, exact: the rounding of the result to the 28 digits of the default
  context is not modelled.
\<close>

fun dec_signed :: "bool \<Rightarrow> nat \<Rightarrow> int" where
  "dec_signed sg c = (if sg then - int c else int c)"


definition dec_of_int :: "int \<Rightarrow> decimal" where
  "dec_of_int i = Fin (i < 0) (nat \<bar>i\<bar>) 0"











section \<open>Validation results (\<open>src/transformers/validators.py\<close>)\<close>

record ValidationError =
  field :: string
  message :: string
  offending_value :: pyval

record ValidationResult =
  is_valid :: bool
  v_errors :: "ValidationError list"
  v_warnings :: "ValidationError list"

section \<open>Pipeline runs (\<open>src/pipelines\<close>)\<close>

text \<open>
  The results of a run, without their two time stamps. The components of a pipeline are
  the objects given to its constructor; each call of a component is a parameter that
  returns a value or the exception it raised. \<open>py_str\<close> is Python's \<open>str\<close>.
\<close>

record PipelineResult =
  p_success :: bool
  extracted :: nat
  validated :: nat
  cleaned :: nat
  normalized :: nat
  inserted :: nat
  updated :: nat
  p_errors :: "string list"
  p_warnings :: "string list"













section \<open>Decimal numbers from text (\<open>decimal.Decimal(str(x))\<close>, \<open>int(x)\<close>)\<close>

definition is_digit :: "char \<Rightarrow> bool" where
  "is_digit c = (c \<in> set ''0123456789'')"

definition digit_val :: "char \<Rightarrow> nat" where
  "digit_val c = of_char c - 48"

definition digits_val :: "string \<Rightarrow> nat" where
  "digits_val ds = foldl (\<lambda>a c. 10 * a + digit_val c) 0 ds"

definition ascii_lower :: "char \<Rightarrow> char" where
  "ascii_lower c =
     (case map_of (zip ''ABCDEFGHIJKLMNOPQRSTUVWXYZ'' ''abcdefghijklmnopqrstuvwxyz'') c of
        None \<Rightarrow> c
      | Some l \<Rightarrow> l)"

definition split_sign :: "string \<Rightarrow> bool \<times> string" where
  "split_sign s =
     (case s of
        [] \<Rightarrow> (False, [])
      | c # r \<Rightarrow> if c = CHR ''-'' then (True, r) else if c = CHR ''+'' then (False, r)
                 else (False, s))"

text \<open>
  The syntax that the \<open>Decimal\<close> constructor accepts for a string, for ASCII digits: white
  space around the number and underscores are dropped, then
  \<open>[sign] (digits [. [digits]] | . digits) [e [sign] digits]\<close>, or an infinity, or a NaN;
  letters in either case. The conversion is exact.
\<close>

definition parse_decimal :: "string \<Rightarrow> decimal option" where
  "parse_decimal s =
     (let t = filter (\<lambda>c. c \<noteq> CHR ''_'') (strip s);
          sg = fst (split_sign t);
          l = map ascii_lower (snd (split_sign t));
          ip = takeWhile is_digit l;
          r1 = dropWhile is_digit l;
          fp = (case r1 of [] \<Rightarrow> []
                | c # r \<Rightarrow> if c = CHR ''.'' then takeWhile is_digit r else []);
          r2 = (case r1 of [] \<Rightarrow> []
                | c # r \<Rightarrow> if c = CHR ''.'' then dropWhile is_digit r else r1)
      in if l = ''inf'' \<or> l = ''infinity'' then Some (Inf sg)
         else if (take 3 l = ''nan'' \<and> list_all is_digit (drop 3 l))
                 \<or> (take 4 l = ''snan'' \<and> list_all is_digit (drop 4 l)) then Some NaN
         else if ip = [] \<and> fp = [] then None
         else
           (case r2 of
              [] \<Rightarrow> Some (Fin sg (digits_val (ip @ fp)) (- int (length fp)))
            | c # r3 \<Rightarrow>
                if c = CHR ''e'' \<and> snd (split_sign r3) \<noteq> []
                   \<and> list_all is_digit (snd (split_sign r3))
                then Some (Fin sg (digits_val (ip @ fp))
                             ((if fst (split_sign r3) then - int (digits_val (snd (split_sign r3)))
                               else int (digits_val (snd (split_sign r3))))
                              - int (length fp)))
                else None))"

text \<open>
  \<open>Decimal(str(x))\<close>: an \<open>int\<close> and a \<open>Decimal\<close> give their own value, a string is
  parsed, and the text of a \<open>bool\<close>, a list or a dict is not a number (\<open>None\<close> is handled by
  the callers before).
\<close>

fun to_decimal :: "pyval \<Rightarrow> decimal option" where
  "to_decimal (VInt i) = Some (dec_of_int i)"
| "to_decimal (VDec d) = Some d"
| "to_decimal (VStr s) = parse_decimal s"
| "to_decimal _ = None"

text \<open>
  \<open>int(x)\<close> for a string: white space around, an optional sign, and decimal digits that
  single underscores may separate.
\<close>

fun underscores_ok :: "string \<Rightarrow> bool" where
  "underscores_ok [] = True"
| "underscores_ok [c] = is_digit c"
| "underscores_ok (c # d # r) =
     (if is_digit c then underscores_ok (d # r)
      else c = CHR ''_'' \<and> is_digit d \<and> underscores_ok (d # r))"

definition parse_int :: "string \<Rightarrow> int option" where
  "parse_int s =
     (let t = strip s; sg = fst (split_sign t); ds = snd (split_sign t)
      in if ds \<noteq> [] \<and> is_digit (hd ds) \<and> underscores_ok ds
         then Some ((if sg then -1 else 1)
                    * int (digits_val (filter (\<lambda>c. c \<noteq> CHR ''_'') ds)))
         else None)"

fun to_int :: "pyval \<Rightarrow> int option" where
  "to_int (VInt i) = Some i"
| "to_int (VBool b) = Some (if b then 1 else 0)"
| "to_int (VStr s) = parse_int s"
| "to_int _ = None"

text \<open>
  Comparisons of a \<open>Decimal\<close>: an ordering comparison with a NaN raises
  \<open>InvalidOperation\<close>, which is \<open>None\<close> here.
\<close>

fun dec_le_zero :: "decimal \<Rightarrow> bool option" where
  "dec_le_zero (Fin sg c e) = Some (c = 0 \<or> sg)"
| "dec_le_zero (Inf sg) = Some sg"
| "dec_le_zero NaN = None"

fun dec_less :: "decimal \<Rightarrow> decimal \<Rightarrow> bool option" where
  "dec_less NaN _ = None"
| "dec_less _ NaN = None"
| "dec_less (Inf a) (Inf b) = Some (a \<and> \<not> b)"
| "dec_less (Inf a) (Fin sg c e) = Some a"
| "dec_less (Fin sg c e) (Inf b) = Some (\<not> b)"
| "dec_less (Fin s1 c1 e1) (Fin s2 c2 e2) =
     (let e = min e1 e2
      in Some (dec_signed s1 c1 * 10 ^ nat (e1 - e) < dec_signed s2 c2 * 10 ^ nat (e2 - e)))"

text \<open>
  The product of two \<open>Decimal\<close>s, exact (the rounding to the 28 digits of the default
  context is not modelled), and \<open>quantize\<close> to \<open>n\<close> decimals with \<open>ROUND_HALF_UP\<close>, which
  raises \<open>InvalidOperation\<close> for an infinity and for a result of more than 28 digits.
\<close>

fun dec_mul :: "decimal \<Rightarrow> decimal \<Rightarrow> exn + decimal" where
  "dec_mul NaN _ = Inr NaN"
| "dec_mul _ NaN = Inr NaN"
| "dec_mul (Inf a) (Inf b) = Inr (Inf (a \<noteq> b))"
| "dec_mul (Inf a) (Fin sg c e) =
     (if c = 0 then Inl (Exn ''InvalidOperation'') else Inr (Inf (a \<noteq> sg)))"
| "dec_mul (Fin sg c e) (Inf b) =
     (if c = 0 then Inl (Exn ''InvalidOperation'') else Inr (Inf (sg \<noteq> b)))"
| "dec_mul (Fin s1 c1 e1) (Fin s2 c2 e2) = Inr (Fin (s1 \<noteq> s2) (c1 * c2) (e1 + e2))"

fun quantize_half_up :: "nat \<Rightarrow> decimal \<Rightarrow> exn + decimal" where
  "quantize_half_up n NaN = Inr NaN"
| "quantize_half_up n (Inf sg) = Inl (Exn ''InvalidOperation'')"
| "quantize_half_up n (Fin sg c e) =
     (let c' = (if - int n \<le> e then c * 10 ^ nat (e + int n)
                else (let k = nat (- int n - e)
                      in if 10 ^ k \<le> 2 * (c mod 10 ^ k) then c div 10 ^ k + 1
                         else c div 10 ^ k))
      in if c' < 10 ^ 28 then Inr (Fin sg c' (- int n)) else Inl (Exn ''InvalidOperation''))"

section \<open>Price normalization (\<open>ProductNormalizer.normalize_price\<close>)\<close>

text \<open>
  \<open>s.rindex(c)\<close> for a character that occurs in \<open>s\<close>: the index of its last occurrence.
\<close>

definition rindex :: "char \<Rightarrow> string \<Rightarrow> nat" where
  "rindex c s = length s - 1 - length (takeWhile (\<lambda>x. x \<noteq> c) (rev s))"

text \<open>
  The cleaning of a price string, in the order of the source: the currency signs, then
  every comma and every space are removed, the rest is stripped, and then comes the branch
  for the European format. The euro sign is not an 8-bit character and does not occur in a
  \<open>string\<close>; the pound sign is the character \<open>0xA3\<close>.
\<close>

definition clean_price_string :: "string \<Rightarrow> string" where
  "clean_price_string s =
     (let p = filter (\<lambda>c. c \<noteq> CHR ''$'' \<and> c \<noteq> CHR 0xA3) s;
          p = strip (filter (\<lambda>c. c \<noteq> CHR '' '') (filter (\<lambda>c. c \<noteq> CHR '','') p))
      in if CHR '','' \<in> set p \<and> CHR ''.'' \<in> set p then
           (if rindex CHR ''.'' p < rindex CHR '','' p
            then map (\<lambda>c. if c = CHR '','' then CHR ''.'' else c)
                     (filter (\<lambda>c. c \<noteq> CHR ''.'') p)
            else p)
         else p)"

definition normalize_price :: "nat \<Rightarrow> decimal \<Rightarrow> pyval \<Rightarrow> exn + decimal" where
  "normalize_price price_decimals price_multiplier price_arg =
     (if price_arg = VNone then Inr (Fin False 0 0)
      else
        (case to_decimal (case price_arg of VStr s \<Rightarrow> VStr (clean_price_string s)
                                           | v \<Rightarrow> v) of
           None \<Rightarrow> Inr (Fin False 0 0)
         | Some price_decimal \<Rightarrow>
             (case dec_mul price_decimal price_multiplier of
                Inl e \<Rightarrow> Inl e
              | Inr p \<Rightarrow> quantize_half_up price_decimals p)))"

text \<open>
  The rule of the specification for a string with both separators: the one that occurs
  later is the decimal point and the other is removed.
\<close>

definition later_separator_spec :: "string \<Rightarrow> string" where
  "later_separator_spec p =
     (if rindex CHR ''.'' p < rindex CHR '','' p
      then map (\<lambda>c. if c = CHR '','' then CHR ''.'' else c) (filter (\<lambda>c. c \<noteq> CHR ''.'') p)
      else filter (\<lambda>c. c \<noteq> CHR '','') p)"

section \<open>Product validation (\<open>ProductValidator\<close>, \<open>src/transformers/validators.py\<close>)\<close>

text \<open>The configuration of a validator: the arguments of its constructor.\<close>

record ProductValidator =
  require_positive_stock :: bool
  min_price :: decimal
  max_name_length :: int
  max_description_length :: int

text \<open>
  The classes that \<open>REQUIRED_FIELDS\<close> names, with \<open>isinstance\<close> (\<open>bool\<close> is a subclass of
  \<open>int\<close>), \<open>cls.__name__\<close>, \<open>str(cls)\<close> and \<open>type(value).__name__\<close>. The apostrophe is the
  character \<open>0x27\<close>.
\<close>

datatype pyclass = Cstr | Cint | Cfloat | CDecimal

fun isinstance :: "pyval \<Rightarrow> pyclass \<Rightarrow> bool" where
  "isinstance (VStr s) Cstr = True"
| "isinstance (VInt i) Cint = True"
| "isinstance (VBool b) Cint = True"
| "isinstance (VDec d) CDecimal = True"
| "isinstance _ _ = False"

fun class_name :: "pyclass \<Rightarrow> string" where
  "class_name Cstr = ''str''"
| "class_name Cint = ''int''"
| "class_name Cfloat = ''float''"
| "class_name CDecimal = ''Decimal''"

fun class_repr :: "pyclass \<Rightarrow> string" where
  "class_repr Cstr = ''<class '' @ [CHR 0x27] @ ''str'' @ [CHR 0x27] @ ''>''"
| "class_repr Cint = ''<class '' @ [CHR 0x27] @ ''int'' @ [CHR 0x27] @ ''>''"
| "class_repr Cfloat = ''<class '' @ [CHR 0x27] @ ''float'' @ [CHR 0x27] @ ''>''"
| "class_repr CDecimal = ''<class '' @ [CHR 0x27] @ ''decimal.Decimal'' @ [CHR 0x27] @ ''>''"

fun type_name :: "pyval \<Rightarrow> string" where
  "type_name VNone = ''NoneType''"
| "type_name (VBool b) = ''bool''"
| "type_name (VInt i) = ''int''"
| "type_name (VStr s) = ''str''"
| "type_name (VDec d) = ''Decimal''"
| "type_name (VList xs) = ''list''"
| "type_name (VDict d) = ''dict''"

text \<open>A field of \<open>REQUIRED_FIELDS\<close> expects one class (\<open>Inl\<close>) or a tuple of classes (\<open>Inr\<close>).\<close>

definition REQUIRED_FIELDS :: "(string \<times> (pyclass + pyclass list)) list" where
  "REQUIRED_FIELDS =
     [(''sku'', Inl Cstr), (''name'', Inl Cstr), (''category'', Inl Cstr),
      (''price'', Inr [Cint, Cfloat, CDecimal, Cstr]), (''stock'', Inr [Cint, Cstr])]"

definition add_error :: "ValidationResult \<Rightarrow> string \<Rightarrow> string \<Rightarrow> pyval \<Rightarrow> ValidationResult" where
  "add_error result f m v =
     result\<lparr>v_errors := v_errors result @ [\<lparr>field = f, message = m, offending_value = v\<rparr>],
            is_valid := False\<rparr>"

definition add_warning :: "ValidationResult \<Rightarrow> string \<Rightarrow> string \<Rightarrow> pyval \<Rightarrow> ValidationResult" where
  "add_warning result f m v =
     result\<lparr>v_warnings := v_warnings result @ [\<lparr>field = f, message = m, offending_value = v\<rparr>]\<rparr>"

text \<open>The body of the loop of \<open>_validate_required_fields\<close>, and the loop.\<close>

definition required_field_step ::
  "pydict \<Rightarrow> ValidationResult \<Rightarrow> string \<times> (pyclass + pyclass list) \<Rightarrow> ValidationResult" where
  "required_field_step data result fe =
     (let field_name = fst fe;
          v = dict_get data field_name;
          invalid = ''Tipo inv'' @ [CHR 0xE1] @ ''lido para '' @ [CHR 0x27] @ field_name
                    @ [CHR 0x27] @ '': esperado ''
      in if v = VNone then
           add_error result field_name
             (''Campo requerido '' @ [CHR 0x27] @ field_name @ [CHR 0x27] @ '' faltante'') VNone
         else
           (case snd fe of
              Inr expected_types \<Rightarrow>
                if list_ex (isinstance v) expected_types then result
                else add_error result field_name
                       (invalid @ ''('' @ join '', '' (map class_repr expected_types)
                        @ ''), recibido '' @ type_name v) v
            | Inl expected_type \<Rightarrow>
                if isinstance v expected_type then result
                else add_error result field_name
                       (invalid @ class_name expected_type @ '', recibido '' @ type_name v) v))"

definition validate_required_fields :: "pydict \<Rightarrow> ValidationResult \<Rightarrow> ValidationResult" where
  "validate_required_fields data result = foldl (required_field_step data) result REQUIRED_FIELDS"

text \<open>
  The five checks \<open>_validate_sku\<close>, \<open>_validate_name\<close>, \<open>_validate_price\<close>, \<open>_validate_stock\<close>
  and \<open>_validate_description\<close> (a name cannot begin with an underscore here). \<open>py_str\<close> is
  Python's \<open>str\<close>, also for the numbers that the messages show. Only \<open>_validate_price\<close> can
  raise: the conversion of the price is inside \<open>try\<close>, the two comparisons that follow are
  not, and an ordering comparison with a NaN raises \<open>InvalidOperation\<close>. The stock that
  reaches \<open>_validate_stock\<close> through \<open>validate\<close> is an \<open>int\<close>, a \<open>bool\<close> or a \<open>str\<close>.
\<close>

definition validate_sku :: "(pyval \<Rightarrow> string) \<Rightarrow> pyval \<Rightarrow> ValidationResult \<Rightarrow> ValidationResult" where
  "validate_sku py_str sku_arg result =
     (if sku_arg = VNone then result
      else
        (let sku_str = strip (py_str sku_arg)
         in if sku_str = [] then
              add_error result ''sku'' (''SKU no puede estar vac'' @ [CHR 0xED] @ ''o'') VNone
            else if 100 < length sku_str then
              add_error result ''sku''
                (''SKU muy largo: '' @ py_str (VInt (int (length sku_str)))
                 @ '' caracteres (max 100)'') VNone
            else result))"

definition validate_name ::
  "ProductValidator \<Rightarrow> (pyval \<Rightarrow> string) \<Rightarrow> pyval \<Rightarrow> ValidationResult \<Rightarrow> ValidationResult" where
  "validate_name cfg py_str name_arg result =
     (if name_arg = VNone then result
      else
        (let name_str = strip (py_str name_arg)
         in if name_str = [] then
              add_error result ''name'' (''Nombre no puede estar vac'' @ [CHR 0xED] @ ''o'') VNone
            else if max_name_length cfg < int (length name_str) then
              add_warning result ''name''
                (''Nombre muy largo: '' @ py_str (VInt (int (length name_str)))
                 @ '' caracteres (max '' @ py_str (VInt (max_name_length cfg))
                 @ ''), ser'' @ [CHR 0xE1] @ '' truncado'') VNone
            else result))"

definition validate_price ::
  "ProductValidator \<Rightarrow> (pyval \<Rightarrow> string) \<Rightarrow> pyval \<Rightarrow> ValidationResult \<Rightarrow>
   exn + ValidationResult" where
  "validate_price cfg py_str price_arg result =
     (if price_arg = VNone then Inr result
      else
        (case to_decimal price_arg of
           None \<Rightarrow>
             Inr (add_error result ''price''
                    (''Precio inv'' @ [CHR 0xE1] @ ''lido: '' @ [CHR 0x27] @ py_str price_arg
                     @ [CHR 0x27]) price_arg)
         | Some price_decimal \<Rightarrow>
             (case dec_le_zero price_decimal of
                None \<Rightarrow> Inl (Exn ''InvalidOperation'')
              | Some True \<Rightarrow>
                  Inr (add_error result ''price''
                         (''Precio debe ser mayor a 0: '' @ py_str (VDec price_decimal)) VNone)
              | Some False \<Rightarrow>
                  (case dec_less price_decimal (min_price cfg) of
                     None \<Rightarrow> Inl (Exn ''InvalidOperation'')
                   | Some True \<Rightarrow>
                       Inr (add_warning result ''price''
                              (''Precio muy bajo: '' @ py_str (VDec price_decimal)
                               @ '' (min recomendado: '' @ py_str (VDec (min_price cfg))
                               @ '')'') VNone)
                   | Some False \<Rightarrow> Inr result))))"

definition validate_stock ::
  "ProductValidator \<Rightarrow> (pyval \<Rightarrow> string) \<Rightarrow> pyval \<Rightarrow> ValidationResult \<Rightarrow> ValidationResult" where
  "validate_stock cfg py_str stock_arg result =
     (if stock_arg = VNone then result
      else
        (case to_int stock_arg of
           None \<Rightarrow>
             add_error result ''stock''
               (''Stock inv'' @ [CHR 0xE1] @ ''lido: '' @ [CHR 0x27] @ py_str stock_arg
                @ [CHR 0x27]) stock_arg
         | Some stock_int \<Rightarrow>
             if stock_int < 0 then
               add_error result ''stock''
                 (''Stock no puede ser negativo: '' @ py_str (VInt stock_int)) VNone
             else if require_positive_stock cfg \<and> stock_int = 0 then
               add_warning result ''stock'' ''Stock es cero'' VNone
             else result))"

definition validate_description ::
  "ProductValidator \<Rightarrow> (pyval \<Rightarrow> string) \<Rightarrow> pyval \<Rightarrow> ValidationResult \<Rightarrow> ValidationResult" where
  "validate_description cfg py_str description_arg result =
     (if description_arg = VNone then result
      else
        (let desc_str = strip (py_str description_arg)
         in if max_description_length cfg < int (length desc_str) then
              add_warning result ''description''
                (''Descripci'' @ [CHR 0xF3] @ ''n muy larga: ''
                 @ py_str (VInt (int (length desc_str)))
                 @ '' caracteres (max '' @ py_str (VInt (max_description_length cfg))
                 @ ''), ser'' @ [CHR 0xE1] @ '' truncada'') VNone
            else result))"

text \<open>
  \<open>ProductValidator.validate\<close>: the result, or the exception that left the method.
\<close>

definition validate ::
  "ProductValidator \<Rightarrow> (pyval \<Rightarrow> string) \<Rightarrow> pydict \<Rightarrow> exn + ValidationResult" where
  "validate cfg py_str data =
     (let result = validate_required_fields data
                     \<lparr>is_valid = True, v_errors = [], v_warnings = []\<rparr>
      in if \<not> is_valid result then Inr result
         else
           (let result = validate_sku py_str (dict_get data ''sku'') result;
                result = validate_name cfg py_str (dict_get data ''name'') result
            in case validate_price cfg py_str (dict_get data ''price'') result of
                 Inl e \<Rightarrow> Inl e
               | Inr result \<Rightarrow>
                   Inr (validate_description cfg py_str (dict_get data ''description'')
                          (validate_stock cfg py_str (dict_get data ''stock'') result))))"

text \<open>The validator that \<open>ProductValidator()\<close> builds, with the default arguments.\<close>

definition default_validator :: ProductValidator where
  "default_validator =
     \<lparr>require_positive_stock = False, min_price = Fin False 1 (- 2),
      max_name_length = 500, max_description_length = 5000\<rparr>"

section \<open>Properties of change detection\<close>

lemma classify_loop_filter:
  "classify_loop f ex ps (a, b) =
     (a @ filter (needs_embedding_spec f ex) ps,
      b @ filter (\<lambda>p. \<not> needs_embedding_spec f ex p) ps)"
  by (induction ps arbitrary: a b) (auto simp: needs_embedding_spec_def Let_def)

text \<open>
  C2. Classification follows the rule of the specification (forced regeneration, or no stored
  hash for the sku, or a stored hash different from the product's current hash, means
  \<open>needsEmbedding\<close>; anything else \<open>metadataOnly\<close>), and it is a partition of the input:
  the two output lists together hold every input product exactly as often as the input does,
  and no product that needs an embedding is in the metadata list or conversely.
\<close>

theorem classify_partition:
  "classify products existing_hashes force_regenerate =
     (filter (needs_embedding_spec force_regenerate existing_hashes) products,
      filter (\<lambda>p. \<not> needs_embedding_spec force_regenerate existing_hashes p) products)
   \<and> mset (fst (classify products existing_hashes force_regenerate))
       + mset (snd (classify products existing_hashes force_regenerate)) = mset products
   \<and> needs_embedding_spec force_regenerate existing_hashes p
       = (force_regenerate \<or> should_regenerate p (existing_hashes (sku p)))"
proof -
  have part: "classify products existing_hashes force_regenerate =
     (filter (needs_embedding_spec force_regenerate existing_hashes) products,
      filter (\<lambda>p. \<not> needs_embedding_spec force_regenerate existing_hashes p) products)"
    by (simp add: classify_def classify_loop_filter)
  have rule: "needs_embedding_spec force_regenerate existing_hashes p
       = (force_regenerate \<or> should_regenerate p (existing_hashes (sku p)))"
    by (auto simp: needs_embedding_spec_def should_regenerate_def split: option.splits)
  show ?thesis
    unfolding part using rule by simp
qed

section \<open>Properties of batch cleaning\<close>

lemma clean_loop_map:
  "clean_loop cp ps acc = acc @ map (\<lambda>p. case cp p of Inl e \<Rightarrow> p | Inr c \<Rightarrow> c) ps"
  by (induction ps arbitrary: acc) (auto split: sum.splits)

text \<open>
  C10. \<open>clean_batch\<close> returns one record per input record, in the input's order: the cleaned
  record, or the input record itself where cleaning it raised. The function is total, so it
  returns a list whatever the cleaner does.
\<close>

theorem clean_batch_keeps_every_record:
  "length (clean_batch clean_product products) = length products
   \<and> clean_batch clean_product products
       = map (\<lambda>p. case clean_product p of Inl e \<Rightarrow> p | Inr c \<Rightarrow> c) products"
  by (simp add: clean_batch_def clean_loop_map)

section \<open>Properties of the content hash\<close>














section \<open>Properties of the vector index and of deletion reconciliation\<close>

lemma map_of_dict_set: "map_of (dict_set d k v) = (map_of d)(k \<mapsto> v)"
  by (induction d) (auto simp: fun_eq_iff)

lemma keys_dict_set: "fst ` set (dict_set d k v) = insert k (fst ` set d)"
  by (simp add: dom_map_of_conv_image_fst[symmetric] map_of_dict_set)

lemma distinct_dict_set: "distinct (map fst d) \<Longrightarrow> distinct (map fst (dict_set d k v))"
  by (induction d) (auto simp: keys_dict_set)

lemma map_of_dict_update_other:
  "k \<notin> fst ` set e \<Longrightarrow> map_of (dict_update d e) k = map_of d k"
  unfolding dict_update_def
  by (induction e arbitrary: d) (auto simp: map_of_dict_set)

lemma set_payload_frame:
  "map point_id (set_payload pl ids col) = map point_id col
   \<and> map vector (set_payload pl ids col) = map vector col
   \<and> (k \<notin> fst ` set pl \<longrightarrow>
        map (\<lambda>pt. map_of (payload pt) k) (set_payload pl ids col)
        = map (\<lambda>pt. map_of (payload pt) k) col)"
  by (induction col) (auto simp: set_payload_def map_of_dict_update_other)

lemma metadata_payload_keys: "fst ` set (metadata_payload pr st) \<subseteq> {''price'', ''stock''}"
  by (auto simp: metadata_payload_def split: option.splits)

lemma batch_payload_keys: "fst ` set (batch_payload u) \<subseteq> {''price'', ''stock''}"
  by (auto simp: batch_payload_def split: option.splits)

lemma batch_loop_frame:
  "k \<noteq> ''price'' \<Longrightarrow> k \<noteq> ''stock'' \<Longrightarrow>
   map point_id (snd (update_metadata_batch_loop us (n, col))) = map point_id col
   \<and> map vector (snd (update_metadata_batch_loop us (n, col))) = map vector col
   \<and> map (\<lambda>pt. map_of (payload pt) k) (snd (update_metadata_batch_loop us (n, col)))
        = map (\<lambda>pt. map_of (payload pt) k) col"
proof (induction us arbitrary: n col)
  case Nil
  then show ?case by simp
next
  case (Cons u us)
  have nk: "k \<notin> fst ` set (batch_payload u)"
    using batch_payload_keys[of u] Cons.prems by auto
  show ?case
    using Cons.IH[OF Cons.prems] set_payload_frame[of "batch_payload u" _ col k] nk
    by (simp add: Let_def)
qed

lemma delete_loop_eq:
  "delete_loop ss (n, col) =
     (n + length ss, filter (\<lambda>pt. \<forall>s \<in> set ss. map_of (payload pt) ''sku'' \<noteq> Some s) col)"
  by (induction ss arbitrary: n col) (auto simp: delete_by_sku_def intro: filter_cong)

lemma distinct_hashes_loop:
  "distinct (map fst h) \<Longrightarrow> distinct (map fst (get_existing_hashes_loop col h))"
  by (induction col arbitrary: h) (auto simp: Let_def distinct_dict_set)

lemma distinct_to_delete: "distinct (to_delete pg col)"
  using distinct_hashes_loop[of "[]" col]
  by (simp add: to_delete_def get_existing_hashes_def Let_def)


text \<open>
  C5. A metadata patch writes a payload whose keys are among \<open>price\<close> and \<open>stock\<close>, in
  \<open>update_metadata\<close> and in every step of \<open>update_metadata_batch\<close>. After either call the
  collection has the same points with the same vectors, and every payload key other than
  \<open>price\<close> and \<open>stock\<close> (so \<open>text_hash\<close> too) has the value it had.
\<close>

theorem update_metadata_frame:
  "fst ` set (metadata_payload price_arg stock_arg) \<subseteq> {''price'', ''stock''}
   \<and> fst ` set (batch_payload update) \<subseteq> {''price'', ''stock''}
   \<and> map point_id (update_metadata pid price_arg stock_arg col) = map point_id col
   \<and> map vector (update_metadata pid price_arg stock_arg col) = map vector col
   \<and> map point_id (snd (update_metadata_batch updates col)) = map point_id col
   \<and> map vector (snd (update_metadata_batch updates col)) = map vector col
   \<and> (k \<noteq> ''price'' \<and> k \<noteq> ''stock'' \<longrightarrow>
        map (\<lambda>pt. map_of (payload pt) k) (update_metadata pid price_arg stock_arg col)
          = map (\<lambda>pt. map_of (payload pt) k) col
        \<and> map (\<lambda>pt. map_of (payload pt) k) (snd (update_metadata_batch updates col))
          = map (\<lambda>pt. map_of (payload pt) k) col)"
proof -
  have nk: "k \<noteq> ''price'' \<and> k \<noteq> ''stock'' \<longrightarrow> k \<notin> fst ` set (metadata_payload price_arg stock_arg)"
    using metadata_payload_keys[of price_arg stock_arg] by auto
  have um: "map point_id (update_metadata pid price_arg stock_arg col) = map point_id col
     \<and> map vector (update_metadata pid price_arg stock_arg col) = map vector col
     \<and> (k \<noteq> ''price'' \<and> k \<noteq> ''stock'' \<longrightarrow>
        map (\<lambda>pt. map_of (payload pt) k) (update_metadata pid price_arg stock_arg col)
          = map (\<lambda>pt. map_of (payload pt) k) col)"
    using nk set_payload_frame[of "metadata_payload price_arg stock_arg" "[pid]" col k]
    by (simp add: update_metadata_def)
  have b1: "map point_id (snd (update_metadata_batch updates col)) = map point_id col
     \<and> map vector (snd (update_metadata_batch updates col)) = map vector col"
    using batch_loop_frame[of "''text_hash''" updates 0 col]
    by (simp add: update_metadata_batch_def)
  have b2: "k \<noteq> ''price'' \<and> k \<noteq> ''stock'' \<longrightarrow>
        map (\<lambda>pt. map_of (payload pt) k) (snd (update_metadata_batch updates col))
          = map (\<lambda>pt. map_of (payload pt) k) col"
    using batch_loop_frame[of k updates 0 col]
    by (simp add: update_metadata_batch_def)
  show ?thesis
    using metadata_payload_keys[of price_arg stock_arg] batch_payload_keys[of update] um b1 b2
    by blast
qed

theorem update_metadata_frame_witness:
  "''text_hash'' \<noteq> ''price'' \<and> ''text_hash'' \<noteq> ''stock''
   \<and> map (\<lambda>pt. map_of (payload pt) ''text_hash'')
        (update_metadata (VStr ''product-1'') (Some (VInt 12)) (Some (VInt 3))
           [\<lparr>point_id = VStr ''product-1'', vector = [1, 0],
             payload = [(''sku'', VStr ''A''), (''price'', VInt 10), (''stock'', VInt 7),
                        (''text_hash'', VStr ''h1'')]\<rparr>])
     = [Some (VStr ''h1'')]
   \<and> update_metadata (VStr ''product-1'') (Some (VInt 12)) (Some (VInt 3))
           [\<lparr>point_id = VStr ''product-1'', vector = [1, 0],
             payload = [(''sku'', VStr ''A''), (''price'', VInt 10), (''stock'', VInt 7),
                        (''text_hash'', VStr ''h1'')]\<rparr>]
     = [\<lparr>point_id = VStr ''product-1'', vector = [1, 0],
             payload = [(''sku'', VStr ''A''), (''price'', VInt 12), (''stock'', VInt 3),
                        (''text_hash'', VStr ''h1'')]\<rparr>]"
  using update_metadata_frame
    [of "Some (VInt 12)" "Some (VInt 3)" "[]" "VStr ''product-1''"
        "[\<lparr>point_id = VStr ''product-1'', vector = [1, 0],
             payload = [(''sku'', VStr ''A''), (''price'', VInt 10), (''stock'', VInt 7),
                        (''text_hash'', VStr ''h1'')]\<rparr>]" "[]" "''text_hash''"]
  by (simp add: update_metadata_def metadata_payload_def set_payload_def dict_update_def)

text \<open>
  C8. With the index's skus taken from \<open>get_existing_hashes\<close> and the relational skus from
  the products of the relational store, \<open>sync_deletions\<close> deletes exactly the skus of the
  index that are not relational skus, each once: it returns their number, and the collection
  afterwards is the old one without the points that carry one of these skus.
\<close>

theorem sync_deletions_exact:
  "set (to_delete pg_products col)
     = fst ` set (get_existing_hashes col) - (\<lambda>p. VStr (sku p)) ` set pg_products
   \<and> distinct (to_delete pg_products col)
   \<and> fst (sync_deletions pg_products col)
       = card (fst ` set (get_existing_hashes col) - (\<lambda>p. VStr (sku p)) ` set pg_products)
   \<and> snd (sync_deletions pg_products col)
       = filter (\<lambda>pt. \<forall>s \<in> fst ` set (get_existing_hashes col)
                              - (\<lambda>p. VStr (sku p)) ` set pg_products.
                    map_of (payload pt) ''sku'' \<noteq> Some s) col"
proof -
  have s: "set (to_delete pg_products col)
     = fst ` set (get_existing_hashes col) - (\<lambda>p. VStr (sku p)) ` set pg_products"
    by (auto simp: to_delete_def Let_def)
  have "length (to_delete pg_products col) = card (set (to_delete pg_products col))"
    using distinct_to_delete by (simp add: distinct_card)
  then show ?thesis
    using s distinct_to_delete[of pg_products col]
    by (simp add: sync_deletions_def delete_loop_eq)
qed

theorem sync_deletions_exact_witness:
  "sync_deletions
     [\<lparr>product_id = ''1'', sku = ''A'', name = ''a'', description = None, category = ''c'',
       price = Fin False 1 0, stock = 1, unit = ''unidad'', attributes = []\<rparr>,
      \<lparr>product_id = ''2'', sku = ''B'', name = ''b'', description = None, category = ''c'',
       price = Fin False 1 0, stock = 1, unit = ''unidad'', attributes = []\<rparr>]
     [\<lparr>point_id = VStr ''product-1'', vector = [1, 0],
       payload = [(''sku'', VStr ''A''), (''text_hash'', VStr ''h1'')]\<rparr>,
      \<lparr>point_id = VStr ''product-2'', vector = [0, 1],
       payload = [(''sku'', VStr ''B''), (''text_hash'', VStr ''h2'')]\<rparr>,
      \<lparr>point_id = VStr ''product-3'', vector = [1, 1],
       payload = [(''sku'', VStr ''C''), (''text_hash'', VStr ''h3'')]\<rparr>]
   = (1,
     [\<lparr>point_id = VStr ''product-1'', vector = [1, 0],
       payload = [(''sku'', VStr ''A''), (''text_hash'', VStr ''h1'')]\<rparr>,
      \<lparr>point_id = VStr ''product-2'', vector = [0, 1],
       payload = [(''sku'', VStr ''B''), (''text_hash'', VStr ''h2'')]\<rparr>])
   \<and> fst ` set (get_existing_hashes
     [\<lparr>point_id = VStr ''product-1'', vector = [1, 0],
       payload = [(''sku'', VStr ''A''), (''text_hash'', VStr ''h1'')]\<rparr>,
      \<lparr>point_id = VStr ''product-2'', vector = [0, 1],
       payload = [(''sku'', VStr ''B''), (''text_hash'', VStr ''h2'')]\<rparr>,
      \<lparr>point_id = VStr ''product-3'', vector = [1, 1],
       payload = [(''sku'', VStr ''C''), (''text_hash'', VStr ''h3'')]\<rparr>])
     = {VStr ''A'', VStr ''B'', VStr ''C''}"
  using sync_deletions_exact
    [of "[\<lparr>product_id = ''1'', sku = ''A'', name = ''a'', description = None, category = ''c'',
       price = Fin False 1 0, stock = 1, unit = ''unidad'', attributes = []\<rparr>,
      \<lparr>product_id = ''2'', sku = ''B'', name = ''b'', description = None, category = ''c'',
       price = Fin False 1 0, stock = 1, unit = ''unidad'', attributes = []\<rparr>]"
     "[\<lparr>point_id = VStr ''product-1'', vector = [1, 0],
       payload = [(''sku'', VStr ''A''), (''text_hash'', VStr ''h1'')]\<rparr>,
      \<lparr>point_id = VStr ''product-2'', vector = [0, 1],
       payload = [(''sku'', VStr ''B''), (''text_hash'', VStr ''h2'')]\<rparr>,
      \<lparr>point_id = VStr ''product-3'', vector = [1, 1],
       payload = [(''sku'', VStr ''C''), (''text_hash'', VStr ''h3'')]\<rparr>]"]
  by (auto simp: sync_deletions_def to_delete_def get_existing_hashes_def dict_get_def
        delete_by_sku_def Let_def)

section \<open>Properties of batch embedding\<close>

lemma append_records_prefix:
  "append_records as_floats xs acc
     = acc @ map projr (takeWhile (\<lambda>x. \<not> isl x)
                 (map (\<lambda>(product, v, text). make_embedding as_floats product v text) xs))"
proof (induction xs arbitrary: acc)
  case Nil
  then show ?case by simp
next
  case (Cons x xs)
  obtain p v t where x: "x = (p, v, t)" by (cases x)
  show ?case
    using Cons.IH by (cases "make_embedding as_floats p v t") (simp_all add: x)
qed

lemma zip_texts:
  "map (\<lambda>(product, v, text). g product v text) (zip batch (zip vs (map f batch)))
     = map (\<lambda>(product, v). g product v (f product)) (zip batch vs)"
proof (induction batch arbitrary: vs)
  case Nil
  then show ?case by simp
next
  case (Cons b batch)
  then show ?case by (cases vs) simp_all
qed

lemma embed_chunk_spec:
  "embed_chunk py_str api as_floats n batch acc
     = acc @ chunk_records_spec py_str api as_floats n batch"
  by (cases "api n (map (build_embedding_text py_str) batch)")
     (simp_all add: embed_chunk_def chunk_records_spec_def Let_def append_records_prefix
        zip_texts)

lemma embed_loop_chunks:
  "0 < bs \<Longrightarrow> embed_loop py_str api as_floats bs n ps acc
     = acc @ concat (map (\<lambda>(i, batch). chunk_records_spec py_str api as_floats i batch)
                         (zip [n ..< n + length (chunks bs ps)] (chunks bs ps)))"
proof (induction py_str api as_floats bs n ps acc rule: embed_loop.induct)
  case (1 py_str api as_floats batch_size n products results)
  show ?case
  proof (cases "products = []")
    case True
    then show ?thesis by simp
  next
    case False
    with 1 have IH: "embed_loop py_str api as_floats batch_size (n + 1) (drop batch_size products)
             (embed_chunk py_str api as_floats n (take batch_size products) results)
       = embed_chunk py_str api as_floats n (take batch_size products) results
         @ concat (map (\<lambda>(i, batch). chunk_records_spec py_str api as_floats i batch)
             (zip [n + 1 ..< n + 1 + length (chunks batch_size (drop batch_size products))]
                  (chunks batch_size (drop batch_size products))))"
      by simp
    have c: "chunks batch_size products
        = take batch_size products # chunks batch_size (drop batch_size products)"
      using False 1(2) by (subst chunks.simps) simp
    have e: "embed_loop py_str api as_floats batch_size n products results
        = embed_loop py_str api as_floats batch_size (n + 1) (drop batch_size products)
             (embed_chunk py_str api as_floats n (take batch_size products) results)"
      using False 1(2) by (subst embed_loop.simps) simp
    show ?thesis
      unfolding e IH c by (simp add: embed_chunk_spec upt_rec[of n] del: upt.simps)
  qed
qed

lemma chunk_records_spec_length:
  "length (chunk_records_spec py_str api as_floats i batch) \<le> length batch"
proof (cases "api i (map (build_embedding_text py_str) batch)")
  case (Inl e)
  then show ?thesis by (simp add: chunk_records_spec_def)
next
  case (Inr vs)
  have "length (takeWhile (\<lambda>x. \<not> isl x)
               (map (\<lambda>(product, v).
                       make_embedding as_floats product v (build_embedding_text py_str product))
                    (zip batch vs))) \<le> length (zip batch vs)"
    using length_takeWhile_le[of "\<lambda>x. \<not> isl x" "map (\<lambda>(product, v).
                       make_embedding as_floats product v (build_embedding_text py_str product))
                    (zip batch vs)"] by simp
  with Inr show ?thesis by (simp add: chunk_records_spec_def)
qed

lemma concat_chunks: "0 < n \<Longrightarrow> concat (chunks n xs) = xs"
proof (induction n xs rule: chunks.induct)
  case (1 n xs)
  show ?case
  proof (cases "xs = []")
    case True
    then show ?thesis by (subst chunks.simps) simp
  next
    case False
    with 1 show ?thesis by (subst chunks.simps) simp
  qed
qed

lemma length_concat_chunk_records:
  "length (concat (map (\<lambda>(i, batch). chunk_records_spec py_str api as_floats i batch) (zip is cs)))
     \<le> length (concat cs)"
proof (induction cs arbitrary: "is")
  case Nil
  then show ?case by simp
next
  case (Cons c cs)
  show ?case
  proof (cases "is")
    case Nil
    then show ?thesis by simp
  next
    case (Cons i is')
    then show ?thesis
      using Cons.IH[of is'] chunk_records_spec_length[of py_str api as_floats i c] by simp
  qed
qed

lemma make_embedding_fields:
  assumes "make_embedding as_floats p v t = Inr r"
  shows "is_finite (price p) \<and> as_floats v = Some (emb_vector r)
         \<and> emb_id r = ''product-'' @ product_id p \<and> emb_sku r = sku p
         \<and> emb_product_id r = product_id p \<and> emb_category r = category p
         \<and> emb_price r = price p \<and> emb_stock r = stock p \<and> emb_text r = t
         \<and> emb_text_hash r = compute_text_hash p"
  using assms by (auto simp: make_embedding_def split: option.splits if_splits)

lemma chunk_records_spec_member:
  assumes "r \<in> set (chunk_records_spec py_str api as_floats i batch)"
  shows "\<exists>p \<in> set batch. \<exists>v.
           make_embedding as_floats p v (build_embedding_text py_str p) = Inr r"
proof (cases "api i (map (build_embedding_text py_str) batch)")
  case (Inl e)
  with assms show ?thesis by (simp add: chunk_records_spec_def)
next
  case (Inr vs)
  let ?g = "\<lambda>(product, v).
              make_embedding as_floats product v (build_embedding_text py_str product)"
  from assms Inr have "r \<in> projr ` set (takeWhile (\<lambda>x. \<not> isl x) (map ?g (zip batch vs)))"
    by (simp only: chunk_records_spec_def sum.case set_map)
  then obtain x where x: "r = projr x" "x \<in> set (takeWhile (\<lambda>x. \<not> isl x) (map ?g (zip batch vs)))"
    by blast
  from set_takeWhileD[OF x(2)] have x2: "x \<in> set (map ?g (zip batch vs))" "\<not> isl x"
    by simp_all
  from x2(1) obtain z where z: "z \<in> set (zip batch vs)" "x = ?g z" by auto
  obtain p v where pv: "z = (p, v)" by (cases z)
  from x(1) x2(2) have "x = Inr r" by (cases x) simp_all
  with z(2) pv have "make_embedding as_floats p v (build_embedding_text py_str p) = Inr r"
    by simp
  moreover from z(1) pv have "p \<in> set batch" by (auto dest: set_zip_leftD)
  ultimately show ?thesis by blast
qed

lemma concat_chunk_records_member:
  assumes "r \<in> set (concat (map (\<lambda>(i, batch). chunk_records_spec py_str api as_floats i batch)
                               (zip is cs)))"
  shows "\<exists>p \<in> set (concat cs). \<exists>v.
           make_embedding as_floats p v (build_embedding_text py_str p) = Inr r"
proof -
  from assms obtain i batch where ib: "(i, batch) \<in> set (zip is cs)"
    "r \<in> set (chunk_records_spec py_str api as_floats i batch)" by auto
  from ib(1) have "batch \<in> set cs" by (rule set_zip_rightD)
  with chunk_records_spec_member[OF ib(2)] show ?thesis by auto
qed

lemma chunk_records_spec_complete:
  assumes "api i (map (build_embedding_text py_str) batch) = Inr vs"
    and "length batch \<le> length vs"
    and "\<forall>(p, v) \<in> set (zip batch vs). as_floats v \<noteq> None \<and> is_finite (price p)"
  shows "map emb_sku (chunk_records_spec py_str api as_floats i batch) = map sku batch"
proof -
  let ?g = "\<lambda>(product, v).
              make_embedding as_floats product v (build_embedding_text py_str product)"
  have ok: "\<forall>x \<in> set (map ?g (zip batch vs)). \<not> isl x"
    using assms(3) by (auto simp: make_embedding_def split: option.splits)
  then have tw: "takeWhile (\<lambda>x. \<not> isl x) (map ?g (zip batch vs)) = map ?g (zip batch vs)"
    by (simp add: takeWhile_eq_all_conv)
  have c: "chunk_records_spec py_str api as_floats i batch = map projr (map ?g (zip batch vs))"
    by (simp only: chunk_records_spec_def assms(1) sum.case tw)
  have "map emb_sku (map projr (map ?g (zip batch vs))) = map (\<lambda>z. sku (fst z)) (zip batch vs)"
    using assms(3) by (auto simp: make_embedding_def split: option.splits)
  also have "\<dots> = map sku (map fst (zip batch vs))" by (simp add: comp_def)
  also have "map fst (zip batch vs) = batch"
    using assms(2) by (simp add: map_fst_zip_take)
  finally show ?thesis unfolding c .
qed

lemma chunk_records_spec_prefix:
  "map emb_sku (chunk_records_spec py_str api as_floats i batch)
     = map sku (take (length (chunk_records_spec py_str api as_floats i batch)) batch)"
proof (cases "api i (map (build_embedding_text py_str) batch)")
  case (Inl e)
  then show ?thesis by (simp add: chunk_records_spec_def)
next
  case (Inr vs)
  let ?g = "\<lambda>(product, v).
              make_embedding as_floats product v (build_embedding_text py_str product)"
  have "map emb_sku (map projr (takeWhile (\<lambda>x. \<not> isl x) (map ?g zs)))
          = map sku (take (length (takeWhile (\<lambda>x. \<not> isl x) (map ?g zs))) (map fst zs))" for zs
  proof (induction zs)
    case Nil
    then show ?case by simp
  next
    case (Cons z zs)
    obtain p v where z: "z = (p, v)" by (cases z)
    show ?case
    proof (cases "make_embedding as_floats p v (build_embedding_text py_str p)")
      case (Inl e)
      then show ?thesis by (simp add: z)
    next
      case (Inr r)
      with make_embedding_fields[OF Inr] Cons.IH show ?thesis by (simp add: z)
    qed
  qed
  from this[of "zip batch vs"] Inr
  have "map emb_sku (chunk_records_spec py_str api as_floats i batch)
     = map sku (take (length (chunk_records_spec py_str api as_floats i batch))
                  (map fst (zip batch vs)))"
    by (simp add: chunk_records_spec_def)
  also have "map fst (zip batch vs) = take (length vs) batch"
    by (simp add: map_fst_zip_take min_def)
  also have "take (length (chunk_records_spec py_str api as_floats i batch))
               (take (length vs) batch)
             = take (length (chunk_records_spec py_str api as_floats i batch)) batch"
  proof -
    have "length (chunk_records_spec py_str api as_floats i batch) \<le> length vs"
      using Inr length_takeWhile_le[of "\<lambda>x. \<not> isl x" "map ?g (zip batch vs)"]
      by (simp add: chunk_records_spec_def)
    then show ?thesis by (simp add: min_def)
  qed
  finally show ?thesis .
qed

text \<open>
  C6, as stated, fails: a chunk whose call of the provider succeeds need not give a record
  for each of its products. When the call returns one vector for two texts, \<open>zip\<close> stops
  after the first product. When the record of a product is refused (here \<open>B\<close>, whose price
  is a NaN), the exception ends the chunk: the records appended before it stay, and \<open>B\<close>
  and the products after it in the chunk get none. With chunks of two, \<open>A\<close>, \<open>C\<close> and \<open>D\<close>
  have a record; with chunks of three, \<open>C\<close> is lost with \<open>B\<close>.
\<close>

theorem generate_embeddings_batch_partial_chunk:
  "(let p = (\<lambda>s. \<lparr>product_id = s, sku = s, name = s, description = None, category = ''c'',
                     price = Fin False 1 0, stock = 1, unit = ''unidad'', attributes = []\<rparr>)
    in (\<exists>rs. generate_embeddings_batch (\<lambda>v. []) (\<lambda>i texts. Inr [Some [0]]) (\<lambda>v. v) 2
                 [p ''A'', p ''B''] = Inr rs
             \<and> map emb_sku rs = [''A''])
       \<and> (\<exists>rs. generate_embeddings_batch (\<lambda>v. [])
                   (\<lambda>i texts. Inr (map (\<lambda>t. Some [0]) texts)) (\<lambda>v. v) 2
                   [p ''A'', (p ''B'')\<lparr>price := NaN\<rparr>, p ''C'', p ''D''] = Inr rs
               \<and> map emb_sku rs = [''A'', ''C'', ''D''])
       \<and> (\<exists>rs. generate_embeddings_batch (\<lambda>v. [])
                   (\<lambda>i texts. Inr (map (\<lambda>t. Some [0]) texts)) (\<lambda>v. v) 3
                   [p ''A'', (p ''B'')\<lparr>price := NaN\<rparr>, p ''C'', p ''D''] = Inr rs
               \<and> map emb_sku rs = [''A'', ''D'']))"
  by (simp add: generate_embeddings_batch_def embed_chunk_def make_embedding_def Let_def)

text \<open>
  C6, amended. For a positive batch size \<open>generate_embeddings_batch\<close> returns, and its
  result is the concatenation, chunk by chunk and in order, of what each chunk contributes,
  whatever happened in the other chunks: nothing when the call of the provider for the chunk
  raised; else the records of its products that have a vector in the response, in order, up
  to the first record that is refused (the vector is not a list of floats, or the price is
  not finite): the records before it are kept and the rest of the chunk is skipped. So the
  skus of a chunk's records are those of a prefix of the chunk, and the result is never longer
  than the input. Every record of the result carries the fields and the text of one of the
  products. A chunk whose call returns at least one vector per product, all accepted, and
  whose products have finite prices contributes a record for each of its products.
\<close>

theorem generate_embeddings_batch_isolates_failures:
  "(0 < batch_size \<longrightarrow>
     (\<exists>rs. generate_embeddings_batch py_str api as_floats batch_size products = Inr rs
        \<and> rs = concat (map (\<lambda>(i, batch). chunk_records_spec py_str api as_floats i batch)
                   (zip [0 ..< length (chunks (nat batch_size) products)]
                        (chunks (nat batch_size) products)))
        \<and> length rs \<le> length products
        \<and> (\<forall>r \<in> set rs. \<exists>p \<in> set products.
              is_finite (price p) \<and> (\<exists>v. as_floats v = Some (emb_vector r))
              \<and> emb_id r = ''product-'' @ product_id p \<and> emb_sku r = sku p
              \<and> emb_product_id r = product_id p \<and> emb_category r = category p
              \<and> emb_price r = price p \<and> emb_stock r = stock p
              \<and> emb_text r = build_embedding_text py_str p
              \<and> emb_text_hash r = compute_text_hash p)))
   \<and> (api i (map (build_embedding_text py_str) failed) = Inl e \<longrightarrow>
        chunk_records_spec py_str api as_floats i failed = [])
   \<and> (api j (map (build_embedding_text py_str) batch) = Inr vs \<and> length batch \<le> length vs
        \<and> (\<forall>(p, v) \<in> set (zip batch vs). as_floats v \<noteq> None \<and> is_finite (price p)) \<longrightarrow>
        map emb_sku (chunk_records_spec py_str api as_floats j batch) = map sku batch)
   \<and> length (chunk_records_spec py_str api as_floats j batch) \<le> length batch
   \<and> map emb_sku (chunk_records_spec py_str api as_floats j batch)
       = map sku (take (length (chunk_records_spec py_str api as_floats j batch)) batch)"
proof -
  have main: "0 < batch_size \<longrightarrow>
     (\<exists>rs. generate_embeddings_batch py_str api as_floats batch_size products = Inr rs
        \<and> rs = concat (map (\<lambda>(i, batch). chunk_records_spec py_str api as_floats i batch)
                   (zip [0 ..< length (chunks (nat batch_size) products)]
                        (chunks (nat batch_size) products)))
        \<and> length rs \<le> length products
        \<and> (\<forall>r \<in> set rs. \<exists>p \<in> set products.
              is_finite (price p) \<and> (\<exists>v. as_floats v = Some (emb_vector r))
              \<and> emb_id r = ''product-'' @ product_id p \<and> emb_sku r = sku p
              \<and> emb_product_id r = product_id p \<and> emb_category r = category p
              \<and> emb_price r = price p \<and> emb_stock r = stock p
              \<and> emb_text r = build_embedding_text py_str p
              \<and> emb_text_hash r = compute_text_hash p))"
  proof
    assume pos: "0 < batch_size"
    then have n: "0 < nat batch_size" by simp
    let ?cs = "chunks (nat batch_size) products"
    let ?rs = "concat (map (\<lambda>(i, batch). chunk_records_spec py_str api as_floats i batch)
                   (zip [0 ..< length ?cs] ?cs))"
    have r: "generate_embeddings_batch py_str api as_floats batch_size products = Inr ?rs"
      using pos embed_loop_chunks[OF n, of py_str api as_floats 0 products "[]"]
      by (simp add: generate_embeddings_batch_def)
    have l: "length ?rs \<le> length products"
      using length_concat_chunk_records[of py_str api as_floats "[0 ..< length ?cs]" ?cs]
        concat_chunks[OF n, of products] by simp
    have m: "\<exists>p \<in> set products.
              is_finite (price p) \<and> (\<exists>v. as_floats v = Some (emb_vector r))
              \<and> emb_id r = ''product-'' @ product_id p \<and> emb_sku r = sku p
              \<and> emb_product_id r = product_id p \<and> emb_category r = category p
              \<and> emb_price r = price p \<and> emb_stock r = stock p
              \<and> emb_text r = build_embedding_text py_str p
              \<and> emb_text_hash r = compute_text_hash p" if "r \<in> set ?rs" for r
    proof -
      from concat_chunk_records_member[OF that]
      obtain p v where p: "p \<in> set (concat ?cs)"
        "make_embedding as_floats p v (build_embedding_text py_str p) = Inr r" by blast
      from p(1) have "p \<in> set products" by (simp only: concat_chunks[OF n])
      with make_embedding_fields[OF p(2)] show ?thesis by blast
    qed
    from r l m show "\<exists>rs. generate_embeddings_batch py_str api as_floats batch_size products = Inr rs
        \<and> rs = ?rs \<and> length rs \<le> length products
        \<and> (\<forall>r \<in> set rs. \<exists>p \<in> set products.
              is_finite (price p) \<and> (\<exists>v. as_floats v = Some (emb_vector r))
              \<and> emb_id r = ''product-'' @ product_id p \<and> emb_sku r = sku p
              \<and> emb_product_id r = product_id p \<and> emb_category r = category p
              \<and> emb_price r = price p \<and> emb_stock r = stock p
              \<and> emb_text r = build_embedding_text py_str p
              \<and> emb_text_hash r = compute_text_hash p)"
      by blast
  qed
  have f: "api i (map (build_embedding_text py_str) failed) = Inl e \<longrightarrow>
        chunk_records_spec py_str api as_floats i failed = []"
    by (simp add: chunk_records_spec_def)
  have c: "api j (map (build_embedding_text py_str) batch) = Inr vs \<and> length batch \<le> length vs
        \<and> (\<forall>(p, v) \<in> set (zip batch vs). as_floats v \<noteq> None \<and> is_finite (price p)) \<longrightarrow>
        map emb_sku (chunk_records_spec py_str api as_floats j batch) = map sku batch"
    using chunk_records_spec_complete[of api j py_str batch vs as_floats] by blast
  from main f c chunk_records_spec_length[of py_str api as_floats j batch]
    chunk_records_spec_prefix[of py_str api as_floats j batch]
  show ?thesis by blast
qed

theorem generate_embeddings_batch_isolates_failures_witness:
  "(0::int) < 2
   \<and> (let p = (\<lambda>s. \<lparr>product_id = s, sku = s, name = s, description = None, category = ''c'',
                     price = Fin False 1 0, stock = 1, unit = ''unidad'', attributes = []\<rparr>);
          api = (\<lambda>i texts. if i = Suc 0 then Inl (Exn ''timeout'')
                           else Inr (map (\<lambda>t. Some [0]) texts))
      in api (Suc 0) (map (build_embedding_text (\<lambda>v. [])) [p ''C'', p ''D''])
           = Inl (Exn ''timeout'')
         \<and> chunk_records_spec (\<lambda>v. []) api (\<lambda>v. v) (Suc 0) [p ''C'', p ''D''] = []
         \<and> api 0 (map (build_embedding_text (\<lambda>v. [])) [p ''A'', p ''B''])
           = Inr [Some [0], Some [0]]
         \<and> map emb_sku (chunk_records_spec (\<lambda>v. []) api (\<lambda>v. v) 0 [p ''A'', p ''B''])
           = [''A'', ''B'']
         \<and> (\<exists>rs. generate_embeddings_batch (\<lambda>v. []) api (\<lambda>v. v) 2
                    [p ''A'', p ''B'', p ''C'', p ''D'', p ''E''] = Inr rs
                  \<and> map emb_sku rs = [''A'', ''B'', ''E'']))"
  using generate_embeddings_batch_isolates_failures
    [of 2 "\<lambda>v. []" "\<lambda>i texts. if i = Suc 0 then Inl (Exn ''timeout'')
                           else Inr (map (\<lambda>t. Some [0]) texts)"
        "\<lambda>v. v"
        "map (\<lambda>s. \<lparr>product_id = s, sku = s, name = s, description = None, category = ''c'',
                     price = Fin False 1 0, stock = 1, unit = ''unidad'', attributes = []\<rparr>)
             [''A'', ''B'', ''C'', ''D'', ''E'']"
        "Suc 0"
        "map (\<lambda>s. \<lparr>product_id = s, sku = s, name = s, description = None, category = ''c'',
                     price = Fin False 1 0, stock = 1, unit = ''unidad'', attributes = []\<rparr>)
             [''C'', ''D'']"
        "Exn ''timeout''" 0
        "map (\<lambda>s. \<lparr>product_id = s, sku = s, name = s, description = None, category = ''c'',
                     price = Fin False 1 0, stock = 1, unit = ''unidad'', attributes = []\<rparr>)
             [''A'', ''B'']"
        "[Some [0], Some [0]]"]
  by (auto simp: generate_embeddings_batch_def chunk_records_spec_def make_embedding_def Let_def
        split: if_splits)

section \<open>Properties of duplicate handling\<close>













section \<open>Properties of the pipeline runs\<close>











section \<open>Properties of price normalization\<close>

lemma set_strip: "set (strip s) \<subseteq> set s"
proof -
  have "set (dropWhile is_space (rev (dropWhile is_space s))) \<subseteq> set (rev (dropWhile is_space s))"
    by (meson set_dropWhileD subsetI)
  moreover have "set (dropWhile is_space s) \<subseteq> set s"
    by (meson set_dropWhileD subsetI)
  ultimately show ?thesis by (auto simp: strip_def)
qed

text \<open>
  No comma is left when the branch for the European format is reached, so the branch is
  never taken: the cleaning of a price string only removes characters.
\<close>

lemma clean_price_string_no_comma:
  "CHR '','' \<notin> set (clean_price_string s)
   \<and> clean_price_string s
       = strip (filter (\<lambda>c. c \<noteq> CHR '' '') (filter (\<lambda>c. c \<noteq> CHR '','')
                 (filter (\<lambda>c. c \<noteq> CHR ''$'' \<and> c \<noteq> CHR 0xA3) s)))"
proof -
  let ?p = "strip (filter (\<lambda>c. c \<noteq> CHR '' '') (filter (\<lambda>c. c \<noteq> CHR '','')
                 (filter (\<lambda>c. c \<noteq> CHR ''$'' \<and> c \<noteq> CHR 0xA3) s)))"
  have "CHR '','' \<notin> set ?p"
    using set_strip[of "filter (\<lambda>c. c \<noteq> CHR '' '') (filter (\<lambda>c. c \<noteq> CHR '','')
                 (filter (\<lambda>c. c \<noteq> CHR ''$'' \<and> c \<noteq> CHR 0xA3) s))"] by auto
  then show ?thesis by (simp add: clean_price_string_def Let_def)
qed

text \<open>
  C3. With two decimals and the multiplier 1, \<open>normalize_price("1.234,56")\<close> is \<open>1.23\<close>:
  every comma is removed before the test for the European format, the text that is parsed
  is \<open>1.23456\<close>, and it is rounded to two decimals. The rule that takes the later of the two
  separators as the decimal point turns the string into \<open>1234.56\<close>, whose price is
  \<open>1234.56\<close>. The other three values are as stated: \<open>"$1,234.56"\<close> gives \<open>1234.56\<close>,
  the integer \<open>1000\<close> gives \<open>1000.00\<close>, and a text that is not a number gives \<open>0\<close>.
\<close>

theorem normalize_price_european_format:
  "normalize_price 2 (Fin False 1 0) (VStr ''1.234,56'') = Inr (Fin False 123 (- 2))
   \<and> later_separator_spec ''1.234,56'' = ''1234.56''
   \<and> normalize_price 2 (Fin False 1 0) (VStr ''1234.56'') = Inr (Fin False 123456 (- 2))
   \<and> normalize_price 2 (Fin False 1 0) (VStr ''$1,234.56'') = Inr (Fin False 123456 (- 2))
   \<and> normalize_price 2 (Fin False 1 0) (VInt 1000) = Inr (Fin False 100000 (- 2))
   \<and> normalize_price 2 (Fin False 1 0) (VStr ''abc'') = Inr (Fin False 0 0)"
  by (simp add: normalize_price_def clean_price_string_def later_separator_spec_def strip_def
      is_space_def parse_decimal_def split_sign_def ascii_lower_def is_digit_def
      digits_val_def digit_val_def dec_of_int_def rindex_def Let_def)

section \<open>Properties of the validator\<close>

lemma dec_le_zero_None: "dec_le_zero d = None \<longleftrightarrow> d = NaN"
  by (cases d) simp_all

lemma dec_less_None: "dec_less d m = None \<longleftrightarrow> d = NaN \<or> m = NaN"
  by (cases d; cases m) (simp_all add: Let_def)

lemma dec_less_NaN: "dec_less d NaN = None"
  by (cases d) simp_all

lemma required_field_step_valid:
  "is_valid (required_field_step data r fe) \<Longrightarrow> required_field_step data r fe = r"
  by (auto simp: required_field_step_def add_error_def Let_def split: if_splits sum.splits)

lemma required_field_step_invalid:
  "\<not> is_valid r \<Longrightarrow> \<not> is_valid (required_field_step data r fe)"
  by (auto simp: required_field_step_def add_error_def Let_def split: if_splits sum.splits)

lemma required_loop_invalid:
  "\<not> is_valid r \<Longrightarrow> \<not> is_valid (foldl (required_field_step data) r fs)"
  by (induction fs arbitrary: r) (simp_all add: required_field_step_invalid)

lemma required_loop_valid:
  "is_valid (foldl (required_field_step data) r fs) \<Longrightarrow> foldl (required_field_step data) r fs = r"
proof (induction fs arbitrary: r)
  case Nil
  then show ?case by simp
next
  case (Cons fe fs)
  then have v: "is_valid (foldl (required_field_step data) (required_field_step data r fe) fs)"
    by simp
  then have "is_valid (required_field_step data r fe)"
    using required_loop_invalid[of "required_field_step data r fe" data fs] by blast
  then have "required_field_step data r fe = r" by (rule required_field_step_valid)
  with Cons.IH[OF v] show ?case by simp
qed

lemma validate_required_fields_valid:
  "is_valid (validate_required_fields data r) \<Longrightarrow> validate_required_fields data r = r"
  unfolding validate_required_fields_def by (rule required_loop_valid)

lemma validate_after_required:
  assumes "is_valid (validate_required_fields data \<lparr>is_valid = True, v_errors = [], v_warnings = []\<rparr>)"
  shows "validate cfg py_str data =
     (case validate_price cfg py_str (dict_get data ''price'')
             (validate_name cfg py_str (dict_get data ''name'')
                (validate_sku py_str (dict_get data ''sku'')
                   \<lparr>is_valid = True, v_errors = [], v_warnings = []\<rparr>)) of
        Inl e \<Rightarrow> Inl e
      | Inr r \<Rightarrow> Inr (validate_description cfg py_str (dict_get data ''description'')
                        (validate_stock cfg py_str (dict_get data ''stock'') r)))"
  using assms validate_required_fields_valid[OF assms] by (simp add: validate_def Let_def)

lemma sku_name_errors:
  "\<forall>e \<in> set (v_errors (validate_name cfg py_str n (validate_sku py_str s
        \<lparr>is_valid = True, v_errors = [], v_warnings = []\<rparr>))). field e = ''sku'' \<or> field e = ''name''"
  by (auto simp: validate_name_def validate_sku_def add_error_def add_warning_def Let_def)

lemma sku_name_warnings:
  "\<forall>e \<in> set (v_warnings (validate_name cfg py_str n (validate_sku py_str s
        \<lparr>is_valid = True, v_errors = [], v_warnings = []\<rparr>))). field e = ''name''"
  by (auto simp: validate_name_def validate_sku_def add_error_def add_warning_def Let_def)

lemma stock_description_errors:
  "v_errors (validate_description cfg py_str d (validate_stock cfg py_str s r))
     = v_errors r @ v_errors (validate_stock cfg py_str s \<lparr>is_valid = True, v_errors = [], v_warnings = []\<rparr>)"
  by (auto simp: validate_description_def validate_stock_def add_error_def add_warning_def Let_def
           split: option.splits)

lemma stock_description_warnings:
  "set (v_warnings r) \<subseteq> set (v_warnings (validate_description cfg py_str d (validate_stock cfg py_str s r)))"
  by (auto simp: validate_description_def validate_stock_def add_error_def add_warning_def Let_def
           split: option.splits)

lemma stock_errors_field:
  "\<forall>e \<in> set (v_errors (validate_stock cfg py_str s \<lparr>is_valid = True, v_errors = [], v_warnings = []\<rparr>)).
     field e = ''stock''"
  by (auto simp: validate_stock_def add_error_def add_warning_def split: option.splits)

text \<open>
  For a record that passes the check of the required fields: \<open>validate\<close> raises exactly
  when the price is a NaN, or when the configured minimum is a NaN and the price is positive.
  Otherwise it returns a result, and the rules for the price and the stock hold of it.
\<close>

lemma validate_raises_iff:
  assumes "is_valid (validate_required_fields data \<lparr>is_valid = True, v_errors = [], v_warnings = []\<rparr>)"
  shows "(\<exists>e. validate cfg py_str data = Inl e) \<longleftrightarrow>
         (\<exists>d. to_decimal (dict_get data ''price'') = Some d
              \<and> (d = NaN \<or> (dec_le_zero d = Some False \<and> min_price cfg = NaN)))"
proof -
  have "dict_get data ''price'' = VNone \<Longrightarrow> to_decimal (dict_get data ''price'') = None"
    by simp
  then show ?thesis
    unfolding validate_after_required[OF assms]
    using dec_le_zero_None dec_less_None
    by (auto simp: validate_price_def dec_less_NaN split: option.splits bool.splits sum.splits)
qed

lemma validate_price_not_positive:
  assumes "is_valid (validate_required_fields data \<lparr>is_valid = True, v_errors = [], v_warnings = []\<rparr>)"
    and "to_decimal (dict_get data ''price'') = Some d" and "dec_le_zero d = Some True"
  shows "\<exists>r. validate cfg py_str data = Inr r \<and> \<not> is_valid r
            \<and> (\<exists>e \<in> set (v_errors r). field e = ''price'')"
proof -
  have "dict_get data ''price'' \<noteq> VNone" using assms(2) by auto
  then show ?thesis
    unfolding validate_after_required[OF assms(1)]
    using assms(2,3)
    by (auto simp: validate_price_def stock_description_errors add_error_def
        validate_description_def validate_stock_def add_warning_def Let_def split: option.splits)
qed

lemma validate_price_below_minimum:
  assumes "is_valid (validate_required_fields data \<lparr>is_valid = True, v_errors = [], v_warnings = []\<rparr>)"
    and "to_decimal (dict_get data ''price'') = Some d" and "dec_le_zero d = Some False"
    and "dec_less d (min_price cfg) = Some True"
  shows "\<exists>r. validate cfg py_str data = Inr r
            \<and> (\<exists>w \<in> set (v_warnings r). field w = ''price'')
            \<and> (\<forall>e \<in> set (v_errors r). field e \<noteq> ''price'')"
proof -
  let ?r = "validate_name cfg py_str (dict_get data ''name'')
              (validate_sku py_str (dict_get data ''sku'')
                 \<lparr>is_valid = True, v_errors = [], v_warnings = []\<rparr>)"
  let ?w = "add_warning ?r ''price''
              (''Precio muy bajo: '' @ py_str (VDec d)
               @ '' (min recomendado: '' @ py_str (VDec (min_price cfg)) @ '')'') VNone"
  let ?res = "validate_description cfg py_str (dict_get data ''description'')
                (validate_stock cfg py_str (dict_get data ''stock'') ?w)"
  have ne: "dict_get data ''price'' \<noteq> VNone" using assms(2) by auto
  have p: "validate_price cfg py_str (dict_get data ''price'') ?r = Inr ?w"
    using ne assms(2,3,4) by (simp add: validate_price_def)
  have v: "validate cfg py_str data = Inr ?res"
    unfolding validate_after_required[OF assms(1)] p by simp
  have "\<exists>w \<in> set (v_warnings ?w). field w = ''price''"
    by (simp add: add_warning_def)
  then have w: "\<exists>w \<in> set (v_warnings ?res). field w = ''price''"
    using stock_description_warnings[of ?w cfg py_str "dict_get data ''description''"
        "dict_get data ''stock''"] by blast
  have "v_errors ?w = v_errors ?r" by (simp add: add_warning_def)
  then have e: "\<forall>e \<in> set (v_errors ?res). field e \<noteq> ''price''"
    using sku_name_errors[of cfg py_str "dict_get data ''name''" "dict_get data ''sku''"]
      stock_errors_field[of cfg py_str "dict_get data ''stock''"]
    by (auto simp: stock_description_errors)
  from v w e show ?thesis by blast
qed

lemma validate_negative_stock:
  assumes "is_valid (validate_required_fields data \<lparr>is_valid = True, v_errors = [], v_warnings = []\<rparr>)"
    and "validate cfg py_str data = Inr r"
    and "to_int (dict_get data ''stock'') = Some i" and "i < 0"
  shows "\<not> is_valid r \<and> (\<exists>e \<in> set (v_errors r). field e = ''stock'')"
proof -
  have ne: "dict_get data ''stock'' \<noteq> VNone" using assms(3) by auto
  from assms(2) obtain r' where
    r: "r = validate_description cfg py_str (dict_get data ''description'')
              (validate_stock cfg py_str (dict_get data ''stock'') r')"
    unfolding validate_after_required[OF assms(1)] by (auto split: sum.splits)
  show ?thesis
    unfolding r using ne assms(3,4)
    by (auto simp: validate_description_def validate_stock_def add_error_def add_warning_def
        Let_def)
qed

lemma validate_well_formed:
  assumes "is_valid (validate_required_fields data \<lparr>is_valid = True, v_errors = [], v_warnings = []\<rparr>)"
    and "strip (py_str (dict_get data ''sku'')) \<noteq> []"
    and "length (strip (py_str (dict_get data ''sku''))) \<le> 100"
    and "strip (py_str (dict_get data ''name'')) \<noteq> []"
    and "to_decimal (dict_get data ''price'') = Some d" and "dec_le_zero d = Some False"
    and "min_price cfg \<noteq> NaN"
    and "to_int (dict_get data ''stock'') = Some i" and "0 \<le> i"
  shows "\<exists>r. validate cfg py_str data = Inr r \<and> is_valid r \<and> v_errors r = []"
proof -
  have "d \<noteq> NaN" using assms(6) by auto
  then obtain b where b: "dec_less d (min_price cfg) = Some b"
    using dec_less_None[of d "min_price cfg"] assms(7) by auto
  have ne: "dict_get data ''price'' \<noteq> VNone" "dict_get data ''stock'' \<noteq> VNone"
    using assms(5,8) by auto
  show ?thesis
    unfolding validate_after_required[OF assms(1)]
    using assms(2-6,8,9) ne b
    by (cases b)
       (auto simp: validate_price_def validate_sku_def validate_name_def validate_stock_def
          validate_description_def add_warning_def Let_def)
qed

text \<open>
  A record of the kind the validator accepts: the default validator returns a valid result
  with no error and no warning.
\<close>

lemma validate_well_formed_example:
  "validate default_validator str_of
       [(''sku'', VStr ''A''), (''name'', VStr ''n''), (''category'', VStr ''c''),
        (''price'', VStr ''10.50''), (''stock'', VInt 5)]
     = Inr \<lparr>is_valid = True, v_errors = [], v_warnings = []\<rparr>"
  by (simp add: validate_def validate_required_fields_def REQUIRED_FIELDS_def
      required_field_step_def dict_get_def add_error_def add_warning_def validate_sku_def
      validate_name_def validate_price_def validate_stock_def validate_description_def
      parse_decimal_def split_sign_def ascii_lower_def is_digit_def digits_val_def digit_val_def
      strip_def is_space_def Let_def default_validator_def)

text \<open>
  C9. The record \<open>{sku: "A", name: "n", category: "c", price: "NaN", stock: -5}\<close> has its
  five required fields present and of the expected types, and its stock is the negative
  integer \<open>-5\<close>, but \<open>validate\<close> returns no result for it, whatever the configuration:
  \<open>Decimal("NaN")\<close> is built inside the \<open>try\<close> block without an exception, and the
  comparison \<open>price_decimal <= 0\<close> after it raises \<open>InvalidOperation\<close>, before the stock is
  looked at. So there is no error tagged \<open>stock\<close>, and no error tagged \<open>price\<close> either.
\<close>

theorem validate_raises_on_nan_price:
  "is_valid (validate_required_fields
       [(''sku'', VStr ''A''), (''name'', VStr ''n''), (''category'', VStr ''c''),
        (''price'', VStr ''NaN''), (''stock'', VInt (- 5))]
       \<lparr>is_valid = True, v_errors = [], v_warnings = []\<rparr>)
   \<and> to_int (dict_get [(''sku'', VStr ''A''), (''name'', VStr ''n''), (''category'', VStr ''c''),
        (''price'', VStr ''NaN''), (''stock'', VInt (- 5))] ''stock'') = Some (- 5)
   \<and> validate cfg py_str
       [(''sku'', VStr ''A''), (''name'', VStr ''n''), (''category'', VStr ''c''),
        (''price'', VStr ''NaN''), (''stock'', VInt (- 5))]
     = Inl (Exn ''InvalidOperation'')"
  by (simp add: validate_def validate_required_fields_def REQUIRED_FIELDS_def
      required_field_step_def dict_get_def add_error_def add_warning_def validate_sku_def
      validate_name_def validate_price_def validate_stock_def validate_description_def
      parse_decimal_def split_sign_def ascii_lower_def is_digit_def digits_val_def digit_val_def
      strip_def is_space_def Let_def)

end
